theory Spec2Isabelle
  imports Main
begin

unbundle bit_operations_syntax

section \<open>Python values and errors\<close>

text \<open>
  The fixtures of \<^verbatim>\<open>pytest_fixtures/component/provision_pxe.py\<close> are embedded as
  functions that return either the exception the Python raises (\<open>Inl\<close>) or the value
  the fixture yields (\<open>Inr\<close>). Remote calls that only matter through their order are
  logged as events.
\<close>

datatype error =
    ValueError string
  | KeyError string
  | IndexError
  | AssertionError string
  | InvalidVersion string
  | RemoteError string

subsection \<open>Decimal text of a number and its parsing\<close>

definition digit_char :: "nat \<Rightarrow> char" where
  "digit_char d = ''0123456789'' ! (d mod 10)"

fun str_nat :: "nat \<Rightarrow> string" where
  "str_nat n = (if n < 10 then [digit_char n] else str_nat (n div 10) @ [digit_char n])"

declare str_nat.simps [simp del]

definition is_ascii_digit :: "char \<Rightarrow> bool" where
  "is_ascii_digit c = (c \<in> set ''0123456789'')"

definition digit_val :: "char \<Rightarrow> nat" where
  "digit_val c = of_char c - 48"

definition nat_of_digits :: "string \<Rightarrow> nat" where
  "nat_of_digits s = foldl (\<lambda>acc c. 10 * acc + digit_val c) 0 s"

text \<open>\<^verbatim>\<open>s.isascii() and s.isdigit()\<close>: a non-empty run of ASCII digits.\<close>

definition all_ascii_digits :: "string \<Rightarrow> bool" where
  "all_ascii_digits s = (s \<noteq> [] \<and> list_all is_ascii_digit s)"

text \<open>\<^verbatim>\<open>s.split(sep)\<close> for a one-character separator: always at least one piece.\<close>

fun split_on :: "char \<Rightarrow> string \<Rightarrow> string list" where
  "split_on sep [] = [[]]"
| "split_on sep (c # cs) =
     (if c = sep then [] # split_on sep cs
      else (case split_on sep cs of p # ps \<Rightarrow> (c # p) # ps | [] \<Rightarrow> [[c]]))"

fun join_with :: "string \<Rightarrow> string list \<Rightarrow> string" where
  "join_with sep [] = []"
| "join_with sep [x] = x"
| "join_with sep (x # y # ys) = x @ sep @ join_with sep (y # ys)"

section \<open>The IPv4 part of Python's ipaddress module\<close>

text \<open>
  \<^verbatim>\<open>ipaddress.ip_interface\<close> is standard-library code outside the repository. It is
  modelled for IPv4 descriptors, the form of \<^verbatim>\<open>provisioning_addr_ipv4\<close>:
  \<^verbatim>\<open>a.b.c.d\<close>, \<^verbatim>\<open>a.b.c.d/len\<close> and \<^verbatim>\<open>a.b.c.d/mask\<close> (a netmask or a
  hostmask in dotted form). Any other text is the \<^verbatim>\<open>ValueError\<close> of the library.
  Addresses are Python integers below \<open>2 ^ 32\<close>.
\<close>

definition parse_octet :: "string \<Rightarrow> nat option" where
  "parse_octet s =
     (if \<not> all_ascii_digits s then None
      else if length s > 3 then None
      else if s \<noteq> ''0'' \<and> hd s = CHR ''0'' then None
      else if nat_of_digits s > 255 then None
      else Some (nat_of_digits s))"

definition ip_int_from_string :: "string \<Rightarrow> nat option" where
  "ip_int_from_string s =
     (case map parse_octet (split_on CHR ''.'' s) of
        [Some a, Some b, Some c, Some d] \<Rightarrow> Some (((a * 256 + b) * 256 + c) * 256 + d)
      | _ \<Rightarrow> None)"

definition ip_int_from_prefix :: "nat \<Rightarrow> nat" where
  "ip_int_from_prefix p = 2 ^ 32 - 2 ^ (32 - p)"

definition prefix_from_ip_int :: "nat \<Rightarrow> nat option" where
  "prefix_from_ip_int n = find (\<lambda>p. ip_int_from_prefix p = n) [0 ..< 33]"

definition prefix_from_prefix_string :: "string \<Rightarrow> nat option" where
  "prefix_from_prefix_string s =
     (if all_ascii_digits s \<and> nat_of_digits s \<le> 32 then Some (nat_of_digits s) else None)"

definition prefix_from_ip_string :: "string \<Rightarrow> nat option" where
  "prefix_from_ip_string s =
     (case ip_int_from_string s of
        None \<Rightarrow> None
      | Some n \<Rightarrow>
          (case prefix_from_ip_int n of
             Some p \<Rightarrow> Some p
           | None \<Rightarrow> prefix_from_ip_int (n XOR (2 ^ 32 - 1))))"

definition make_netmask :: "string \<Rightarrow> nat option" where
  "make_netmask s =
     (case prefix_from_prefix_string s of
        Some p \<Rightarrow> Some p
      | None \<Rightarrow> prefix_from_ip_string s)"

record ipv4_network =
  network_address :: nat
  netmask :: nat
  prefixlen :: nat

record ipv4_interface =
  ip :: nat
  network :: ipv4_network

definition ipv4_network_of :: "nat \<Rightarrow> nat \<Rightarrow> ipv4_network" where
  \<comment> \<open>\<^verbatim>\<open>IPv4Network((addr, mask), strict=False)\<close>: the host bits are masked off.\<close>
  "ipv4_network_of a p =
     \<lparr>network_address = a AND ip_int_from_prefix p,
      netmask = ip_int_from_prefix p,
      prefixlen = p\<rparr>"

definition ip_interface :: "string \<Rightarrow> error + ipv4_interface" where
  "ip_interface s =
     (let bad = Inl (ValueError (s @ '' does not appear to be an IPv4 or IPv6 interface''))
      in case split_on CHR ''/'' s of
           [a] \<Rightarrow>
             (case ip_int_from_string a of
                None \<Rightarrow> bad
              | Some n \<Rightarrow> Inr \<lparr>ip = n, network = ipv4_network_of n 32\<rparr>)
         | [a, m] \<Rightarrow>
             (case ip_int_from_string a of
                None \<Rightarrow> bad
              | Some n \<Rightarrow>
                  (case make_netmask m of
                     None \<Rightarrow> bad
                   | Some p \<Rightarrow> Inr \<lparr>ip = n, network = ipv4_network_of n p\<rparr>))
         | _ \<Rightarrow> bad)"

definition str_ipv4 :: "nat \<Rightarrow> string" where
  \<comment> \<open>\<^verbatim>\<open>str(IPv4Address)\<close>: the four bytes, big end first, in decimal.\<close>
  "str_ipv4 n =
     join_with ''.''
       (map str_nat [n div 16777216 mod 256, n div 65536 mod 256, n div 256 mod 256, n mod 256])"

section \<open>module_provisioning_sat\<close>

text \<open>
  The \<^verbatim>\<open>data_out\<close> of the broker workflow, as the \<^verbatim>\<open>Box\<close> the fixture reads.
  The upstream DNS list is mutated by \<^verbatim>\<open>pop()\<close>, so the fixture's model returns it.
\<close>

record broker_data_out =
  provisioning_addr_ipv4 :: string
  provisioning_upstream_dns :: "string list"
  provisioning_gw_ipv4 :: string
  provisioning_host_range_start :: string
  provisioning_host_range_end :: string

text \<open>\<^verbatim>\<open>list.pop()\<close>: removes and returns the last element, IndexError when empty.\<close>

definition pop :: "'a list \<Rightarrow> error + ('a \<times> 'a list)" where
  "pop xs = (if xs = [] then Inl IndexError else Inr (last xs, butlast xs))"

record domain =
  domain_id :: nat
  domain_location :: "nat list"
  domain_organization :: "nat list"
  domain_dns :: nat
  domain_name :: string

record subnet =
  subnet_location :: "nat list"
  subnet_organization :: "nat list"
  subnet_network :: string
  subnet_mask :: string
  subnet_gateway :: string
  subnet_from :: string
  subnet_to :: string
  dns_primary :: string
  dns_secondary :: "string option"
  boot_mode :: string
  ipam :: string
  subnet_dhcp :: nat
  subnet_tftp :: nat
  subnet_template :: nat
  subnet_dns :: nat
  subnet_httpboot :: nat
  subnet_discovery :: nat
  remote_execution_proxy :: "nat list"
  subnet_domain :: "nat list"

text \<open>
  What the fixture takes from the other fixtures and from the server: the location, the
  organization, the capsule's id, the random domain label of \<^verbatim>\<open>gen_string\<close> (already
  lower-cased) and the id the server gives the created domain.
\<close>

record sat_context =
  module_location :: nat
  module_sca_manifest_org :: nat
  capsule_id :: nat
  gen_alpha_lower :: string
  created_domain_id :: nat

record provisioning_sat =
  sat_domain :: domain
  sat_subnet :: subnet
  provisioning_type :: string
  data_out_after :: broker_data_out

definition module_provisioning_sat ::
  "string option \<Rightarrow> sat_context \<Rightarrow> broker_data_out \<Rightarrow> error + provisioning_sat" where
  "module_provisioning_sat param cx b =
     (let ptype = (case param of None \<Rightarrow> '''' | Some p \<Rightarrow> p);
          provisioning_domain_name = gen_alpha_lower cx @ ''.foo''
      in case ip_interface (provisioning_addr_ipv4 b) of
           Inl e \<Rightarrow> Inl e
         | Inr provisioning_interface \<Rightarrow>
       let provisioning_network = network provisioning_interface
       in case pop (provisioning_upstream_dns b) of
            Inl e \<Rightarrow> Inl e
          | Inr (provisioning_upstream_dns_primary, dns1) \<Rightarrow>
       let (provisioning_upstream_dns_secondary, dns2) =
             (if length dns1 \<noteq> 0 then (Some (last dns1), butlast dns1) else (None, dns1));
           dom = \<lparr>domain_id = created_domain_id cx,
                  domain_location = [module_location cx],
                  domain_organization = [module_sca_manifest_org cx],
                  domain_dns = capsule_id cx,
                  domain_name = provisioning_domain_name\<rparr>;
           sn = \<lparr>subnet_location = [module_location cx],
                 subnet_organization = [module_sca_manifest_org cx],
                 subnet_network = str_ipv4 (network_address provisioning_network),
                 subnet_mask = str_ipv4 (netmask provisioning_network),
                 subnet_gateway = provisioning_gw_ipv4 b,
                 subnet_from = provisioning_host_range_start b,
                 subnet_to = provisioning_host_range_end b,
                 dns_primary = provisioning_upstream_dns_primary,
                 dns_secondary = provisioning_upstream_dns_secondary,
                 boot_mode = ''DHCP'',
                 ipam = ''DHCP'',
                 subnet_dhcp = capsule_id cx,
                 subnet_tftp = capsule_id cx,
                 subnet_template = capsule_id cx,
                 subnet_dns = capsule_id cx,
                 subnet_httpboot = capsule_id cx,
                 subnet_discovery = capsule_id cx,
                 remote_execution_proxy = [capsule_id cx],
                 subnet_domain = [domain_id dom]\<rparr>
       in Inr \<lparr>sat_domain = dom, sat_subnet = sn, provisioning_type = ptype,
               data_out_after = b\<lparr>provisioning_upstream_dns := dns2\<rparr>\<rparr>)"

text \<open>
  An address text lies within a network when it parses as an IPv4 address whose network
  bits are the network's.
\<close>

definition in_network :: "string \<Rightarrow> ipv4_network \<Rightarrow> bool" where
  "in_network a net =
     (case ip_int_from_string a of
        None \<Rightarrow> False
      | Some n \<Rightarrow> n AND netmask net = network_address net)"

section \<open>Host checkout: provisioning_host and provision_multiple_hosts\<close>

text \<open>
  A checked-out host. \<open>blank = None\<close> is a host object without the attribute
  \<^verbatim>\<open>blank\<close>, which \<^verbatim>\<open>getattr(prov_host, 'blank', False)\<close> reads as False.
\<close>

record ephemeral_host =
  host_name :: string
  blank :: "bool option"

datatype host_event =
    Checkout nat
  | Yield
  | SatExecute string
  | Checkin

definition set_blank :: "ephemeral_host \<Rightarrow> ephemeral_host" where
  \<comment> \<open>\<^verbatim>\<open>prov_host.blank = getattr(prov_host, 'blank', False)\<close>\<close>
  "set_blank h = h\<lparr>blank := Some (case blank h of None \<Rightarrow> False | Some v \<Rightarrow> v)\<rparr>"

text \<open>
  The statements after \<^verbatim>\<open>yield\<close> in \<^verbatim>\<open>provisioning_host\<close>: the restart of dhcpd on
  the Satellite, the assertion on its exit status, then the assignment of \<^verbatim>\<open>blank\<close>.
\<close>

definition provisioning_host_teardown ::
  "int \<Rightarrow> ephemeral_host \<Rightarrow> host_event list \<times> (error + ephemeral_host)" where
  "provisioning_host_teardown restart_status h =
     ([SatExecute ''systemctl restart dhcpd''],
      if restart_status = 0 then Inr (set_blank h) else Inl (AssertionError []))"

text \<open>The statements after \<^verbatim>\<open>yield\<close> in \<^verbatim>\<open>provision_multiple_hosts\<close>.\<close>

definition provision_multiple_hosts_teardown ::
  "ephemeral_host list \<Rightarrow> host_event list \<times> (error + ephemeral_host list)" where
  "provision_multiple_hosts_teardown hosts = ([], Inr (map set_blank hosts))"

text \<open>
  A yield fixture inside \<^verbatim>\<open>with Broker(...) as x\<close>, as pytest and the context manager
  run it: the checkout may fail, and then nothing else happens; otherwise the
  test body runs on what was yielded (it may change the hosts, and it passes or fails),
  pytest resumes the generator whatever the outcome, and leaving the \<^verbatim>\<open>with\<close> block,
  normally or by the teardown's exception, checks the hosts in.
\<close>

datatype outcome = Passed | Failed

definition with_broker ::
  "nat \<Rightarrow> (error + 'h) \<Rightarrow> ('h \<Rightarrow> 'h \<times> outcome) \<Rightarrow>
   ('h \<Rightarrow> host_event list \<times> (error + 'h)) \<Rightarrow> host_event list \<times> (error + 'h)" where
  "with_broker count checkout body teardown =
     (case checkout of
        Inl e \<Rightarrow> ([Checkout count], Inl e)
      | Inr x \<Rightarrow>
          (let (x', res) = body x;
               (evs, r) = teardown x'
           in ([Checkout count, Yield] @ evs @ [Checkin], r)))"

definition provisioning_host ::
  "(error + ephemeral_host) \<Rightarrow> (ephemeral_host \<Rightarrow> ephemeral_host \<times> outcome) \<Rightarrow> int \<Rightarrow>
   host_event list \<times> (error + ephemeral_host)" where
  "provisioning_host checkout body restart_status =
     with_broker 1 checkout body (provisioning_host_teardown restart_status)"

definition provision_multiple_hosts ::
  "nat option \<Rightarrow> (error + ephemeral_host list) \<Rightarrow>
   (ephemeral_host list \<Rightarrow> ephemeral_host list \<times> outcome) \<Rightarrow>
   host_event list \<times> (error + ephemeral_host list)" where
  "provision_multiple_hosts param checkout body =
     with_broker (case param of None \<Rightarrow> 2 | Some n \<Rightarrow> n) checkout body
       provision_multiple_hosts_teardown"

section \<open>pxeless_discovery_host\<close>

text \<open>
  Whitespace as \<^verbatim>\<open>\S\<close> excludes it for a \<^verbatim>\<open>str\<close> pattern, on the code points
  below 256: tab to carriage return, the four separators 28 to 31, space, NEL and the
  no-break space.
\<close>

definition is_space :: "char \<Rightarrow> bool" where
  "is_space c = ((of_char c :: nat) \<in> set [9, 10, 11, 12, 13, 28, 29, 30, 31, 32, 133, 160])"

definition fdi_prefix :: string where
  "fdi_prefix = ''foreman-discovery-image''"

text \<open>
  A match of \<^verbatim>\<open>foreman-discovery-image\S+\<close> that starts at the head of the text: the
  literal, then the longest run of non-whitespace, which must not be empty.
\<close>

definition match_here :: "string \<Rightarrow> string option" where
  "match_here s =
     (let run = takeWhile (\<lambda>c. \<not> is_space c) (drop (length fdi_prefix) s)
      in if take (length fdi_prefix) s = fdi_prefix \<and> run \<noteq> [] then Some (fdi_prefix @ run)
         else None)"

text \<open>
  \<^verbatim>\<open>pattern.findall(text)\<close>: the matches from left to right, each search resuming
  where the last match ended.
\<close>

function findall :: "string \<Rightarrow> string list" where
  "findall [] = []"
| "findall (c # cs) =
     (case match_here (c # cs) of
        Some m \<Rightarrow> m # findall (drop (length m) (c # cs))
      | None \<Rightarrow> findall cs)"
  by pat_completeness auto
termination
  by (relation "measure length")
     (auto simp: match_here_def fdi_prefix_def Let_def split: if_splits)

text \<open>Lines 325 and 326: \<^verbatim>\<open>pattern.findall(result.stdout)[0]\<close>.\<close>

definition first_fdi :: "string \<Rightarrow> error + string" where
  "first_fdi stdout = (case findall stdout of [] \<Rightarrow> Inl IndexError | fdi # _ \<Rightarrow> Inr fdi)"

record discovery_sat =
  discovery_iso :: string
  sat_hostname :: string

record broker_call =
  call_kind :: string
  call_args :: "(string \<times> string) list"

text \<open>
  The fixture up to its \<^verbatim>\<open>yield\<close>. \<open>execute\<close> is the remote shell of the Satellite,
  giving the standard output of a command; \<open>broker_args\<close> and \<open>name\<close> belong to the
  checked-out host. The result is the list of broker calls made and the exception that
  ended the setup, if any.
\<close>

definition remaster_command :: "discovery_sat \<Rightarrow> string \<Rightarrow> string" where
  "remaster_command ds mac =
     ''cd /var/www/html/pub && '' @ ''discovery-remaster '' @ discovery_iso ds @ '' ''
       @ [CHR 0x22] @ ''proxy.type=foreman proxy.url=https://'' @ sat_hostname ds
       @ '':443 fdi.pxmac='' @ mac @ '' fdi.pxauto=1'' @ [CHR 0x22]"

definition pxeless_discovery_host ::
  "string \<Rightarrow> (string \<rightharpoonup> string) \<Rightarrow> discovery_sat \<Rightarrow> string \<Rightarrow> string \<Rightarrow> string \<Rightarrow>
   (string \<Rightarrow> string) \<Rightarrow> broker_call list \<times> error option" where
  "pxeless_discovery_host name broker_args ds vm_firmware gen_alpha vlan_id execute =
     (let image_name = gen_alpha @ ''-'' @ discovery_iso ds
      in case broker_args ''provisioning_nic_mac_addr'' of
           None \<Rightarrow> ([], Some (KeyError ''provisioning_nic_mac_addr''))
         | Some mac \<Rightarrow>
       (case first_fdi (execute (remaster_command ds mac)) of
          Inl e \<Rightarrow> ([], Some e)
        | Inr fdi \<Rightarrow>
       (let import_image =
              \<lparr>call_kind = ''import-disk-image'',
               call_args = [(''import_disk_image_name'', image_name),
                            (''import_disk_image_url'',
                             ''https://'' @ sat_hostname ds @ ''/pub/'' @ fdi),
                            (''firmware_type'', vm_firmware)]\<rparr>
        in case broker_args ''target_vm_firmware'' of
             None \<Rightarrow> ([import_image], Some (KeyError ''target_vm_firmware''))
           | Some fw \<Rightarrow>
               ([import_image,
                 \<lparr>call_kind = ''configure-pxe-boot'',
                  call_args = [(''target_host'', name),
                               (''target_vlan_id'', vlan_id),
                               (''target_vm_firmware'', fw),
                               (''target_pxeless_image'', image_name),
                               (''target_boot_scenario'', ''pxeless_pre'')]\<rparr>],
                None))))"

section \<open>module_provisioning_rhel_content\<close>

subsection \<open>The requested version\<close>

text \<open>
  \<^verbatim>\<open>request.param['rhel_version']\<close> is a Python integer or a string. \<open>py_int\<close> is
  \<^verbatim>\<open>int(x)\<close>: on a string, surrounding whitespace is dropped, a sign may lead, and
  single underscores may separate the digits. \<open>py_str\<close> is the text an f-string
  inserts.
\<close>

datatype pyval = PInt int | PStr string

definition strip :: "string \<Rightarrow> string" where
  "strip s = rev (dropWhile is_space (rev (dropWhile is_space s)))"

definition int_of_str :: "string \<Rightarrow> int option" where
  "int_of_str s =
     (let t = strip s;
          (neg, body) =
            (case t of
               c # r \<Rightarrow> if c = CHR ''-'' then (True, r)
                         else if c = CHR ''+'' then (False, r) else (False, t)
             | [] \<Rightarrow> (False, t));
          groups = split_on CHR ''_'' body
      in if list_all all_ascii_digits groups
         then Some ((if neg then - 1 else 1) * int (nat_of_digits (concat groups)))
         else None)"

definition py_int :: "pyval \<Rightarrow> error + int" where
  "py_int v =
     (case v of
        PInt n \<Rightarrow> Inr n
      | PStr s \<Rightarrow> (case int_of_str s of None \<Rightarrow> Inl (ValueError s) | Some n \<Rightarrow> Inr n))"

definition str_int :: "int \<Rightarrow> string" where
  "str_int n = (if n < 0 then CHR ''-'' # str_nat (nat (- n)) else str_nat (nat n))"

definition py_str :: "pyval \<Rightarrow> string" where
  "py_str v = (case v of PInt n \<Rightarrow> str_int n | PStr s \<Rightarrow> s)"

subsection \<open>Constants, settings and the remote server\<close>

text \<open>
  \<^verbatim>\<open>robottelo.constants\<close>, \<^verbatim>\<open>robottelo.config.settings\<close>, the Satellite's API and
  \<^verbatim>\<open>packaging.version.Version\<close> are not part of the fixture's file: they are parameters.
  \<open>REPOS_kickstart\<close> is \<^verbatim>\<open>constants.REPOS['kickstart']\<close>, \<open>REPOS\<close> the rest of
  \<^verbatim>\<open>constants.REPOS\<close>; a missing key raises \<^verbatim>\<open>KeyError\<close>.
\<close>

record kickstart_entry =
  ks_product :: string
  ks_name :: string
  ks_reposet :: string
  ks_version :: string

record content_entry =
  c_product :: string
  c_name :: string
  c_reposet :: string
  c_releasever :: "string option"

record version =
  major :: nat
  minor :: nat
  version_text :: string

record environment =
  REPOS_kickstart :: "string \<rightharpoonup> kickstart_entry"
  REPOS :: "string \<rightharpoonup> content_entry"
  SATCLIENT_REPO :: "string \<rightharpoonup> string"
  Version :: "string \<Rightarrow> error + version"
  gen_alpha :: string

text \<open>
  What the server answers. A repository, a task, an operating system, a content view and
  an activation key are known by their ids. \<open>wait_for_tasks\<close> may raise (a timeout, a
  failed task) or return; \<open>wait_for_publish\<close> returns the results of the tasks found.
\<close>

record remote =
  enable_rhrepo_and_fetchid :: "string \<Rightarrow> string \<Rightarrow> string \<Rightarrow> string option \<Rightarrow> nat"
  client_repo :: nat
  sync_task :: "nat \<Rightarrow> nat"
  wait_for_tasks :: "nat \<Rightarrow> error option"
  poll_result :: "nat \<Rightarrow> string"
  os_search :: "nat \<Rightarrow> nat \<Rightarrow> nat list"
  publish_task :: nat
  wait_for_publish :: "nat \<Rightarrow> error + string list"
  content_view_search :: "nat list"
  created_activation_key :: nat

datatype repo_kind = Kickstart | Content

datatype event =
    ContentViewCreate
  | ProductCreate string
  | RepositoryCreate string
  | EnableRhRepo repo_kind string
  | RepositoryRead nat
  | RepositorySync nat
  | ContentViewUpdate "nat list"
  | WaitForTasks nat
  | TaskPoll nat
  | OperatingSystemSearch nat nat
  | OperatingSystemRead nat
  | ContentViewPublish
  | WaitForPublish nat
  | ContentViewSearch
  | ActivationKeyCreate nat

subsection \<open>Runs: the calls made so far and an exception or a value\<close>

type_synonym 'a run = "event list \<times> (error + 'a)"

definition ret :: "'a \<Rightarrow> 'a run" where
  "ret x = ([], Inr x)"

definition raise :: "error \<Rightarrow> 'a run" where
  "raise e = ([], Inl e)"

definition emit :: "event \<Rightarrow> unit run" where
  "emit ev = ([ev], Inr ())"

definition bind_run :: "'a run \<Rightarrow> ('a \<Rightarrow> 'b run) \<Rightarrow> 'b run" where
  "bind_run m f =
     (case m of
        (tr, Inl e) \<Rightarrow> (tr, Inl e)
      | (tr, Inr x) \<Rightarrow> (case f x of (tr', r) \<Rightarrow> (tr @ tr', r)))"

definition then_run :: "unit run \<Rightarrow> 'b run \<Rightarrow> 'b run" where
  "then_run m n = bind_run m (\<lambda>_. n)"

definition lookup :: "(string \<rightharpoonup> 'v) \<Rightarrow> string \<Rightarrow> 'v run" where
  "lookup m k = (case m k of None \<Rightarrow> raise (KeyError k) | Some v \<Rightarrow> ret v)"

definition first :: "'a list \<Rightarrow> 'a run" where
  \<comment> \<open>\<^verbatim>\<open>xs[0]\<close>\<close>
  "first xs = (case xs of [] \<Rightarrow> raise IndexError | x # _ \<Rightarrow> ret x)"

subsection \<open>Lines 37 to 43: the names of the vendor repositories\<close>

definition repo_names_of :: "pyval \<Rightarrow> string list run" where
  "repo_names_of rhel_ver =
     (case py_int rhel_ver of
        Inl e \<Rightarrow> raise e
      | Inr n \<Rightarrow>
          ret (if n \<le> 7 then [''rhel'' @ py_str rhel_ver]
               else [''rhel'' @ py_str rhel_ver @ ''_bos'', ''rhel'' @ py_str rhel_ver @ ''_aps'']))"

subsection \<open>Lines 63 to 91: enabling and syncing\<close>

text \<open>
  The variables the loops update. \<open>rh_repo_id\<close> starts as the empty string and is
  only ever tested for truth, as an id is: \<open>0\<close> stands for the empty string too.
  \<open>cv_repository\<close> is \<^verbatim>\<open>content_view.repository\<close>.
\<close>

record loop_state =
  rh_repo_id :: nat
  tasks :: "nat list"
  rh_repos :: "nat list"
  cv_repository :: "nat list"

fun sync_step :: "remote \<Rightarrow> nat list \<Rightarrow> loop_state \<Rightarrow> loop_state run" where
  "sync_step r [] st = ret st"
| "sync_step r (repo_id # ids) st =
     (if repo_id \<noteq> 0 then
        then_run (emit (RepositoryRead repo_id))
       (then_run (emit (RepositorySync repo_id))
       (then_run (emit (ContentViewUpdate (cv_repository st @ [repo_id])))
         (sync_step r ids
            (st\<lparr>tasks := tasks st @ [sync_task r repo_id],
                rh_repos := rh_repos st @ [repo_id],
                cv_repository := cv_repository st @ [repo_id]\<rparr>))))
      else sync_step r ids st)"

fun enable_and_sync ::
  "environment \<Rightarrow> remote \<Rightarrow> string \<Rightarrow> string list \<Rightarrow> loop_state \<Rightarrow> loop_state run" where
  "enable_and_sync k r ptype [] st = ret st"
| "enable_and_sync k r ptype (name # names) st =
     bind_run (lookup (REPOS_kickstart k) name) (\<lambda>ke.
     then_run (emit (EnableRhRepo Kickstart name))
    (bind_run
       (if ptype \<noteq> ''discovery'' then
          bind_run (lookup (REPOS k) name) (\<lambda>ce.
          then_run (emit (EnableRhRepo Content name))
            (ret (enable_rhrepo_and_fetchid r (c_product ce) (c_name ce) (c_reposet ce)
                    (c_releasever ce))))
        else ret (rh_repo_id st)) (\<lambda>content_id.
     bind_run
       (sync_step r
          [enable_rhrepo_and_fetchid r (ks_product ke) (ks_name ke) (ks_reposet ke)
             (Some (ks_version ke)),
           content_id]
          (st\<lparr>rh_repo_id := content_id\<rparr>))
       (enable_and_sync k r ptype names))))"

text \<open>Lines 36 to 91: everything up to the end of the enabling loop.\<close>

definition enable_repositories ::
  "environment \<Rightarrow> remote \<Rightarrow> pyval \<Rightarrow> string \<Rightarrow> loop_state run" where
  "enable_repositories k r rhel_ver ptype =
     bind_run (repo_names_of rhel_ver) (\<lambda>repo_names.
     then_run (emit ContentViewCreate)
    (then_run (emit (ProductCreate (''rhel'' @ py_str rhel_ver @ ''_'' @ gen_alpha k)))
    (bind_run (lookup (SATCLIENT_REPO k) (''rhel'' @ py_str rhel_ver)) (\<lambda>url.
     then_run (emit (RepositoryCreate url))
    (then_run (emit (RepositorySync (client_repo r)))
       (enable_and_sync k r ptype repo_names
          \<lparr>rh_repo_id = 0,
           tasks = [sync_task r (client_repo r)],
           rh_repos = [],
           cv_repository = [client_repo r]\<rparr>))))))"

subsection \<open>Lines 92 to 98: waiting for the sync tasks\<close>

fun wait_for_sync :: "remote \<Rightarrow> nat list \<Rightarrow> unit run" where
  "wait_for_sync r [] = ret ()"
| "wait_for_sync r (task # ts) =
     then_run (emit (WaitForTasks task))
       (case wait_for_tasks r task of
          Some e \<Rightarrow> raise e
        | None \<Rightarrow>
            then_run (emit (TaskPoll task))
              (if poll_result r task = ''success'' then wait_for_sync r ts
               else raise (AssertionError [])))"

subsection \<open>Lines 99 to 108: the operating system\<close>

definition kickstart_version_key :: "pyval \<Rightarrow> string" where
  \<comment> \<open>the key of the conditional expression: \<^verbatim>\<open>... if rhel_ver == 7 else ...\<close>\<close>
  "kickstart_version_key rhel_ver =
     (if rhel_ver = PInt 7 then ''rhel'' @ py_str rhel_ver
      else ''rhel'' @ py_str rhel_ver @ ''_bos'')"

definition resolve_os :: "environment \<Rightarrow> remote \<Rightarrow> pyval \<Rightarrow> nat run" where
  "resolve_os k r rhel_ver =
     bind_run (lookup (REPOS_kickstart k) (kickstart_version_key rhel_ver)) (\<lambda>ke.
     bind_run ([], Version k (ks_version ke)) (\<lambda>rhel_xy.
     then_run (emit (OperatingSystemSearch (major rhel_xy) (minor rhel_xy)))
       (case os_search r (major rhel_xy) (minor rhel_xy) of
          [] \<Rightarrow>
            raise (AssertionError
              (''Operating system RHEL '' @ version_text rhel_xy @ '' was not found''))
        | os # _ \<Rightarrow> then_run (emit (OperatingSystemRead os)) (ret os))))"

subsection \<open>Lines 109 to 127: publishing and the activation key\<close>

record content_bundle =
  bundle_os :: nat
  bundle_ak :: nat
  ksrepo :: nat
  bundle_cv :: nat

definition publish_and_key :: "remote \<Rightarrow> loop_state \<Rightarrow> nat \<Rightarrow> content_bundle run" where
  "publish_and_key r st os =
     bind_run (first (rh_repos st)) (\<lambda>ks.
     then_run (emit ContentViewPublish)
    (then_run (emit (WaitForPublish (publish_task r)))
    (bind_run ([], wait_for_publish r (publish_task r)) (\<lambda>task_status.
     bind_run (first task_status) (\<lambda>res.
       if res \<noteq> ''success'' then raise (AssertionError [])
       else
         then_run (emit ContentViewSearch)
        (bind_run (first (content_view_search r)) (\<lambda>content_view.
         then_run (emit (ActivationKeyCreate content_view))
           (ret \<lparr>bundle_os = os, bundle_ak = created_activation_key r, ksrepo = ks,
                 bundle_cv = content_view\<rparr>))))))))"

definition module_provisioning_rhel_content ::
  "environment \<Rightarrow> remote \<Rightarrow> pyval \<Rightarrow> string \<Rightarrow> content_bundle run" where
  "module_provisioning_rhel_content k r rhel_ver ptype =
     bind_run (enable_repositories k r rhel_ver ptype) (\<lambda>st.
     then_run (wait_for_sync r (tasks st))
    (bind_run (resolve_os k r rhel_ver) (\<lambda>os.
       publish_and_key r st os)))"

text \<open>What a run did, read off its events.\<close>

fun enabled :: "repo_kind \<Rightarrow> event list \<Rightarrow> string list" where
  "enabled kd [] = []"
| "enabled kd (EnableRhRepo kd' name # evs) =
     (if kd' = kd then name # enabled kd evs else enabled kd evs)"
| "enabled kd (_ # evs) = enabled kd evs"

fun synced :: "event list \<Rightarrow> nat list" where
  "synced [] = []"
| "synced (RepositorySync i # evs) = i # synced evs"
| "synced (_ # evs) = synced evs"

fun registered :: "event list \<Rightarrow> nat list" where
  "registered [] = []"
| "registered (RepositoryRead i # evs) = i # registered evs"
| "registered (_ # evs) = registered evs"

section \<open>Notions used to state the properties\<close>

text \<open>
  The id the server gives the kickstart repository, and the content repository, that
  the constants list under a name.
\<close>

definition kickstart_id :: "environment \<Rightarrow> remote \<Rightarrow> string \<Rightarrow> nat" where
  "kickstart_id k r name =
     (case REPOS_kickstart k name of
        None \<Rightarrow> 0
      | Some ke \<Rightarrow>
          enable_rhrepo_and_fetchid r (ks_product ke) (ks_name ke) (ks_reposet ke)
            (Some (ks_version ke)))"

definition content_id :: "environment \<Rightarrow> remote \<Rightarrow> string \<Rightarrow> nat" where
  "content_id k r name =
     (case REPOS k name of
        None \<Rightarrow> 0
      | Some ce \<Rightarrow>
          enable_rhrepo_and_fetchid r (c_product ce) (c_name ce) (c_reposet ce)
            (c_releasever ce))"

text \<open>The loop variables as line 44 to 61 set them.\<close>

definition start_state :: "remote \<Rightarrow> loop_state" where
  "start_state r =
     \<lparr>rh_repo_id = 0, tasks = [sync_task r (client_repo r)], rh_repos = [],
      cv_repository = [client_repo r]\<rparr>"

text \<open>The calls of the last phase: publishing and the activation key.\<close>

fun late :: "event \<Rightarrow> bool" where
  "late ContentViewPublish = True"
| "late (ActivationKeyCreate content_view) = True"
| "late _ = False"

section \<open>Concrete inputs\<close>

definition example_context :: sat_context where
  "example_context =
     \<lparr>module_location = 2, module_sca_manifest_org = 1, capsule_id = 1,
      gen_alpha_lower = ''abcde'', created_domain_id = 7\<rparr>"

definition scenario_data_out :: broker_data_out where
  "scenario_data_out =
     \<lparr>provisioning_addr_ipv4 = ''10.0.0.5/24'',
      provisioning_upstream_dns = [''8.8.8.8''],
      provisioning_gw_ipv4 = ''10.0.0.1'',
      provisioning_host_range_start = ''10.0.0.100'',
      provisioning_host_range_end = ''10.0.0.200''\<rparr>"

definition two_dns_data_out :: broker_data_out where
  "two_dns_data_out = scenario_data_out\<lparr>provisioning_upstream_dns := [''1.1.1.1'', ''8.8.8.8'']\<rparr>"

definition stray_range_data_out :: broker_data_out where
  "stray_range_data_out =
     scenario_data_out\<lparr>provisioning_host_range_start := ''192.168.1.10'',
                       provisioning_host_range_end := ''192.168.1.20''\<rparr>"

text \<open>
  A parser for release versions such as \<^verbatim>\<open>7.9\<close>, sample constants and settings for
  RHEL 6, 7 and 9, and a server on which every call succeeds.
\<close>

definition release_version :: "string \<Rightarrow> error + version" where
  "release_version s =
     (let parts = split_on CHR ''.'' s
      in if list_all all_ascii_digits parts
         then Inr \<lparr>major = nat_of_digits (hd parts),
                   minor = (case tl parts of [] \<Rightarrow> 0 | p # _ \<Rightarrow> nat_of_digits p),
                   version_text = s\<rparr>
         else Inl (InvalidVersion s))"

definition example_environment :: environment where
  "example_environment =
     \<lparr>REPOS_kickstart = map_of
        [(''rhel6'', \<lparr>ks_product = ''RHEL Server'', ks_name = ''RHEL 6 KS'',
                      ks_reposet = ''RHEL 6 KS set'', ks_version = ''6.10''\<rparr>),
         (''rhel7'', \<lparr>ks_product = ''RHEL Server'', ks_name = ''RHEL 7 KS'',
                      ks_reposet = ''RHEL 7 KS set'', ks_version = ''7.9''\<rparr>),
         (''rhel9_bos'', \<lparr>ks_product = ''RHEL9'', ks_name = ''RHEL 9 BaseOS KS'',
                          ks_reposet = ''RHEL 9 BaseOS KS set'', ks_version = ''9.3''\<rparr>),
         (''rhel9_aps'', \<lparr>ks_product = ''RHEL9'', ks_name = ''RHEL 9 AppStream KS'',
                          ks_reposet = ''RHEL 9 AppStream KS set'', ks_version = ''9.3''\<rparr>)],
      REPOS = map_of
        [(''rhel6'', \<lparr>c_product = ''RHEL Server'', c_name = ''RHEL 6 RPMs'',
                      c_reposet = ''RHEL 6 set'', c_releasever = Some ''6Server''\<rparr>),
         (''rhel7'', \<lparr>c_product = ''RHEL Server'', c_name = ''RHEL 7 RPMs'',
                      c_reposet = ''RHEL 7 set'', c_releasever = Some ''7Server''\<rparr>),
         (''rhel9_bos'', \<lparr>c_product = ''RHEL9'', c_name = ''RHEL 9 BaseOS RPMs'',
                          c_reposet = ''RHEL 9 BaseOS set'', c_releasever = None\<rparr>),
         (''rhel9_aps'', \<lparr>c_product = ''RHEL9'', c_name = ''RHEL 9 AppStream RPMs'',
                          c_reposet = ''RHEL 9 AppStream set'', c_releasever = None\<rparr>)],
      SATCLIENT_REPO = map_of
        [(''rhel6'', ''http://client/6''), (''rhel7'', ''http://client/7''),
         (''rhel9'', ''http://client/9'')],
      Version = release_version,
      gen_alpha = ''xyz''\<rparr>"

definition example_remote :: remote where
  "example_remote =
     \<lparr>enable_rhrepo_and_fetchid = (\<lambda>product name reposet releasever. length name),
      client_repo = 1,
      sync_task = (\<lambda>i. 100 + i),
      wait_for_tasks = (\<lambda>t. None),
      poll_result = (\<lambda>t. ''success''),
      os_search = (\<lambda>ma mi. [ma * 100 + mi]),
      publish_task = 500,
      wait_for_publish = (\<lambda>t. Inr [''success'']),
      content_view_search = [40],
      created_activation_key = 50\<rparr>"

text \<open>The same server, but the sync of the client repository ends in an error.\<close>

definition failing_remote :: remote where
  "failing_remote =
     example_remote\<lparr>poll_result := (\<lambda>t. if t = 101 then ''error'' else ''success'')\<rparr>"

text \<open>A checked-out host's broker arguments, a Satellite with a discovery ISO, and two outputs
  of the remaster command: one that names the image and one that does not.\<close>

definition example_broker_args :: "string \<rightharpoonup> string" where
  "example_broker_args =
     map_of [(''provisioning_nic_mac_addr'', ''52:54:00:aa:bb:cc''), (''target_vm_firmware'', ''bios'')]"

definition example_discovery_sat :: discovery_sat where
  "example_discovery_sat = \<lparr>discovery_iso = ''fdi.iso'', sat_hostname = ''sat.example.com''\<rparr>"

definition remaster_stdout :: string where
  "remaster_stdout = ''ok foreman-discovery-image-3.8.iso done''"

definition remaster_stdout_without_image :: string where
  "remaster_stdout_without_image = ''no image''"

section \<open>Properties of module_provisioning_sat\<close>

lemmas ip_parse_defs =
  ip_interface_def ip_int_from_string_def parse_octet_def all_ascii_digits_def
  is_ascii_digit_def nat_of_digits_def digit_val_def make_netmask_def
  prefix_from_prefix_string_def ipv4_network_of_def ip_int_from_prefix_def

lemma ip_interface_10_0_0_5:
  "ip_interface ''10.0.0.5/24'' =
     Inr \<lparr>ip = 167772165,
          network = \<lparr>network_address = 167772160, netmask = 4294967040, prefixlen = 24\<rparr>\<rparr>"
  by (simp add: ip_parse_defs)

lemma str_ipv4_10_0_0_0: "str_ipv4 167772160 = ''10.0.0.0''"
  by (simp add: str_ipv4_def str_nat.simps digit_char_def)

lemma str_ipv4_255_255_255_0: "str_ipv4 4294967040 = ''255.255.255.0''"
  by (simp add: str_ipv4_def str_nat.simps digit_char_def)

text \<open>
  Once the address descriptor parses and one upstream DNS address is there, the
  fixture returns, and every field of the subnet is fixed by the broker's output.
\<close>

lemma module_provisioning_sat_returns:
  assumes i: "ip_interface (provisioning_addr_ipv4 b) = Inr i"
    and d: "provisioning_upstream_dns b \<noteq> []"
  shows "\<exists>box. module_provisioning_sat param cx b = Inr box
      \<and> subnet_network (sat_subnet box) = str_ipv4 (network_address (network i))
      \<and> subnet_mask (sat_subnet box) = str_ipv4 (netmask (network i))
      \<and> subnet_gateway (sat_subnet box) = provisioning_gw_ipv4 b
      \<and> subnet_from (sat_subnet box) = provisioning_host_range_start b
      \<and> subnet_to (sat_subnet box) = provisioning_host_range_end b
      \<and> dns_primary (sat_subnet box) = last (provisioning_upstream_dns b)
      \<and> dns_secondary (sat_subnet box) =
          (if butlast (provisioning_upstream_dns b) = [] then None
           else Some (last (butlast (provisioning_upstream_dns b))))
      \<and> provisioning_upstream_dns (data_out_after box) =
          butlast (butlast (provisioning_upstream_dns b))"
  using i d by (simp add: module_provisioning_sat_def pop_def Let_def)

text \<open>
  C5. For the broker output with address \<^verbatim>\<open>10.0.0.5/24\<close> and the upstream DNS list
  \<^verbatim>\<open>['8.8.8.8']\<close>, whatever the gateway and the host range, the fixture creates a subnet
  with network \<^verbatim>\<open>10.0.0.0\<close>, mask \<^verbatim>\<open>255.255.255.0\<close>, primary DNS \<^verbatim>\<open>8.8.8.8\<close> and no
  secondary DNS.
\<close>

theorem subnet_of_scenario:
  "\<exists>box. module_provisioning_sat param cx
      \<lparr>provisioning_addr_ipv4 = ''10.0.0.5/24'', provisioning_upstream_dns = [''8.8.8.8''],
       provisioning_gw_ipv4 = gw, provisioning_host_range_start = range_start,
       provisioning_host_range_end = range_end\<rparr> = Inr box
    \<and> subnet_network (sat_subnet box) = ''10.0.0.0''
    \<and> subnet_mask (sat_subnet box) = ''255.255.255.0''
    \<and> dns_primary (sat_subnet box) = ''8.8.8.8''
    \<and> dns_secondary (sat_subnet box) = None"
  by (simp add: module_provisioning_sat_def pop_def Let_def ip_interface_10_0_0_5
      str_ipv4_10_0_0_0 str_ipv4_255_255_255_0)

text \<open>
  C10. The upstream DNS addresses are taken from the end of the broker's list. With two
  or more addresses the primary is the last one and the secondary the one before it,
  and both are gone from the list afterwards; with a single address that one is the
  primary, there is no secondary, and the list is left empty.
\<close>

theorem upstream_dns_taken_from_end:
  assumes "ip_interface (provisioning_addr_ipv4 b) = Inr i"
  shows "(2 \<le> length (provisioning_upstream_dns b) \<longrightarrow>
           (\<exists>box. module_provisioning_sat param cx b = Inr box
              \<and> dns_primary (sat_subnet box) = last (provisioning_upstream_dns b)
              \<and> dns_secondary (sat_subnet box) =
                  Some (last (butlast (provisioning_upstream_dns b)))
              \<and> provisioning_upstream_dns (data_out_after box) =
                  butlast (butlast (provisioning_upstream_dns b))))
       \<and> (\<forall>p. provisioning_upstream_dns b = [p] \<longrightarrow>
           (\<exists>box. module_provisioning_sat param cx b = Inr box
              \<and> dns_primary (sat_subnet box) = p
              \<and> dns_secondary (sat_subnet box) = None
              \<and> provisioning_upstream_dns (data_out_after box) = []))"
proof (intro conjI impI allI)
  assume len: "2 \<le> length (provisioning_upstream_dns b)"
  then have ne: "provisioning_upstream_dns b \<noteq> []" by auto
  from len have "butlast (provisioning_upstream_dns b) \<noteq> []"
    by (cases "provisioning_upstream_dns b" rule: rev_cases) auto
  with module_provisioning_sat_returns [OF assms ne, of param cx]
  show "\<exists>box. module_provisioning_sat param cx b = Inr box
          \<and> dns_primary (sat_subnet box) = last (provisioning_upstream_dns b)
          \<and> dns_secondary (sat_subnet box) = Some (last (butlast (provisioning_upstream_dns b)))
          \<and> provisioning_upstream_dns (data_out_after box) =
              butlast (butlast (provisioning_upstream_dns b))"
    by auto
next
  fix p assume one: "provisioning_upstream_dns b = [p]"
  then have ne: "provisioning_upstream_dns b \<noteq> []" by simp
  from module_provisioning_sat_returns [OF assms ne, of param cx] one
  show "\<exists>box. module_provisioning_sat param cx b = Inr box
          \<and> dns_primary (sat_subnet box) = p
          \<and> dns_secondary (sat_subnet box) = None
          \<and> provisioning_upstream_dns (data_out_after box) = []"
    by auto
qed

theorem upstream_dns_taken_from_end_witness:
  "dns_primary (sat_subnet (projr (module_provisioning_sat None example_context two_dns_data_out)))
     = ''8.8.8.8''
   \<and> dns_secondary (sat_subnet (projr (module_provisioning_sat None example_context two_dns_data_out)))
     = Some ''1.1.1.1''
   \<and> provisioning_upstream_dns
       (data_out_after (projr (module_provisioning_sat None example_context two_dns_data_out))) = []
   \<and> dns_primary (sat_subnet (projr (module_provisioning_sat None example_context scenario_data_out)))
     = ''8.8.8.8''
   \<and> dns_secondary (sat_subnet (projr (module_provisioning_sat None example_context scenario_data_out)))
     = None"
proof -
  have i2: "ip_interface (provisioning_addr_ipv4 two_dns_data_out) =
      Inr \<lparr>ip = 167772165,
           network = \<lparr>network_address = 167772160, netmask = 4294967040, prefixlen = 24\<rparr>\<rparr>"
    by (simp add: two_dns_data_out_def scenario_data_out_def ip_interface_10_0_0_5)
  have i1: "ip_interface (provisioning_addr_ipv4 scenario_data_out) =
      Inr \<lparr>ip = 167772165,
           network = \<lparr>network_address = 167772160, netmask = 4294967040, prefixlen = 24\<rparr>\<rparr>"
    by (simp add: scenario_data_out_def ip_interface_10_0_0_5)
  have l2: "2 \<le> length (provisioning_upstream_dns two_dns_data_out)"
    by (simp add: two_dns_data_out_def scenario_data_out_def)
  have l1: "provisioning_upstream_dns scenario_data_out = [''8.8.8.8'']"
    by (simp add: scenario_data_out_def)
  from upstream_dns_taken_from_end [OF i2, of None example_context] l2
  obtain box2 where b2: "module_provisioning_sat None example_context two_dns_data_out = Inr box2"
    "dns_primary (sat_subnet box2) = last (provisioning_upstream_dns two_dns_data_out)"
    "dns_secondary (sat_subnet box2) = Some (last (butlast (provisioning_upstream_dns two_dns_data_out)))"
    "provisioning_upstream_dns (data_out_after box2) =
       butlast (butlast (provisioning_upstream_dns two_dns_data_out))"
    by blast
  from upstream_dns_taken_from_end [OF i1, of None example_context] l1
  obtain box1 where b1: "module_provisioning_sat None example_context scenario_data_out = Inr box1"
    "dns_primary (sat_subnet box1) = ''8.8.8.8''"
    "dns_secondary (sat_subnet box1) = None"
    by blast
  from b2 b1 show ?thesis
    by (simp add: two_dns_data_out_def scenario_data_out_def)
qed

text \<open>
  C3, as the specification states it: the DHCP range of the subnet lies within the
  network derived from the address descriptor. The fixture never compares the two; it
  stores the host range the broker reports. For the descriptor \<^verbatim>\<open>10.0.0.5/24\<close> with the
  reported range \<^verbatim>\<open>192.168.1.10\<close> to \<^verbatim>\<open>192.168.1.20\<close> the subnet is created with
  that range, outside \<^verbatim>\<open>10.0.0.0/24\<close>.
\<close>

theorem dhcp_range_within_network_counterexample:
  "\<not> isl (module_provisioning_sat None example_context stray_range_data_out)
   \<and> \<not> in_network
        (subnet_from (sat_subnet (projr
           (module_provisioning_sat None example_context stray_range_data_out))))
        (network (projr (ip_interface (provisioning_addr_ipv4 stray_range_data_out))))"
proof -
  have i: "ip_interface (provisioning_addr_ipv4 stray_range_data_out) =
      Inr \<lparr>ip = 167772165,
           network = \<lparr>network_address = 167772160, netmask = 4294967040, prefixlen = 24\<rparr>\<rparr>"
    by (simp add: stray_range_data_out_def scenario_data_out_def ip_interface_10_0_0_5)
  have d: "provisioning_upstream_dns stray_range_data_out \<noteq> []"
    by (simp add: stray_range_data_out_def scenario_data_out_def)
  from module_provisioning_sat_returns [OF i d, of None example_context]
  obtain box where box: "module_provisioning_sat None example_context stray_range_data_out = Inr box"
    "subnet_from (sat_subnet box) = provisioning_host_range_start stray_range_data_out"
    by blast
  have "\<not> in_network ''192.168.1.10''
      \<lparr>network_address = 167772160, netmask = 4294967040, prefixlen = 24\<rparr>"
    by (simp add: in_network_def ip_int_from_string_def parse_octet_def all_ascii_digits_def
        is_ascii_digit_def nat_of_digits_def digit_val_def)
  with box i show ?thesis
    by (simp add: stray_range_data_out_def scenario_data_out_def)
qed

text \<open>
  C3, amended. For every broker output whose address descriptor parses and that has at
  least one upstream DNS address, the fixture creates a subnet whose network and mask
  are those of the descriptor, whose DHCP range is the broker's host range, unchanged
  (so it lies within the derived network when the broker's range does), and whose
  secondary DNS is absent when exactly one upstream address was supplied.
\<close>

theorem subnet_range_as_reported:
  assumes "ip_interface (provisioning_addr_ipv4 b) = Inr i"
    and "provisioning_upstream_dns b \<noteq> []"
  shows "\<exists>box. module_provisioning_sat param cx b = Inr box
      \<and> subnet_network (sat_subnet box) = str_ipv4 (network_address (network i))
      \<and> subnet_mask (sat_subnet box) = str_ipv4 (netmask (network i))
      \<and> subnet_from (sat_subnet box) = provisioning_host_range_start b
      \<and> subnet_to (sat_subnet box) = provisioning_host_range_end b
      \<and> (in_network (provisioning_host_range_start b) (network i)
           \<and> in_network (provisioning_host_range_end b) (network i)
         \<longrightarrow> in_network (subnet_from (sat_subnet box)) (network i)
           \<and> in_network (subnet_to (sat_subnet box)) (network i))
      \<and> (length (provisioning_upstream_dns b) = 1 \<longrightarrow> dns_secondary (sat_subnet box) = None)"
proof -
  from module_provisioning_sat_returns [OF assms, of param cx]
  obtain box where box: "module_provisioning_sat param cx b = Inr box"
    "subnet_network (sat_subnet box) = str_ipv4 (network_address (network i))"
    "subnet_mask (sat_subnet box) = str_ipv4 (netmask (network i))"
    "subnet_from (sat_subnet box) = provisioning_host_range_start b"
    "subnet_to (sat_subnet box) = provisioning_host_range_end b"
    "dns_secondary (sat_subnet box) =
          (if butlast (provisioning_upstream_dns b) = [] then None
           else Some (last (butlast (provisioning_upstream_dns b))))"
    by blast
  have "length (provisioning_upstream_dns b) = 1 \<longrightarrow> butlast (provisioning_upstream_dns b) = []"
    by (cases "provisioning_upstream_dns b") auto
  with box show ?thesis by auto
qed

theorem subnet_range_as_reported_witness:
  "subnet_from (sat_subnet (projr (module_provisioning_sat None example_context scenario_data_out)))
     = ''10.0.0.100''
   \<and> subnet_to (sat_subnet (projr (module_provisioning_sat None example_context scenario_data_out)))
     = ''10.0.0.200''
   \<and> in_network
       (subnet_from (sat_subnet (projr (module_provisioning_sat None example_context scenario_data_out))))
       \<lparr>network_address = 167772160, netmask = 4294967040, prefixlen = 24\<rparr>
   \<and> in_network
       (subnet_to (sat_subnet (projr (module_provisioning_sat None example_context scenario_data_out))))
       \<lparr>network_address = 167772160, netmask = 4294967040, prefixlen = 24\<rparr>
   \<and> dns_secondary (sat_subnet (projr (module_provisioning_sat None example_context scenario_data_out)))
     = None"
proof -
  have i: "ip_interface (provisioning_addr_ipv4 scenario_data_out) =
      Inr \<lparr>ip = 167772165,
           network = \<lparr>network_address = 167772160, netmask = 4294967040, prefixlen = 24\<rparr>\<rparr>"
    by (simp add: scenario_data_out_def ip_interface_10_0_0_5)
  have d: "provisioning_upstream_dns scenario_data_out \<noteq> []"
    and l: "length (provisioning_upstream_dns scenario_data_out) = 1"
    by (simp_all add: scenario_data_out_def)
  have s: "in_network (provisioning_host_range_start scenario_data_out)
      \<lparr>network_address = 167772160, netmask = 4294967040, prefixlen = 24\<rparr>"
    by (simp add: scenario_data_out_def in_network_def ip_int_from_string_def parse_octet_def
        all_ascii_digits_def is_ascii_digit_def nat_of_digits_def digit_val_def)
  have e: "in_network (provisioning_host_range_end scenario_data_out)
      \<lparr>network_address = 167772160, netmask = 4294967040, prefixlen = 24\<rparr>"
    by (simp add: scenario_data_out_def in_network_def ip_int_from_string_def parse_octet_def
        all_ascii_digits_def is_ascii_digit_def nat_of_digits_def digit_val_def)
  from subnet_range_as_reported [OF i d, of None example_context] s e l
  obtain box where "module_provisioning_sat None example_context scenario_data_out = Inr box"
    "subnet_from (sat_subnet box) = provisioning_host_range_start scenario_data_out"
    "subnet_to (sat_subnet box) = provisioning_host_range_end scenario_data_out"
    "in_network (subnet_from (sat_subnet box))
       \<lparr>network_address = 167772160, netmask = 4294967040, prefixlen = 24\<rparr>"
    "in_network (subnet_to (sat_subnet box))
       \<lparr>network_address = 167772160, netmask = 4294967040, prefixlen = 24\<rparr>"
    "dns_secondary (sat_subnet box) = None"
    by auto
  then show ?thesis by (simp add: scenario_data_out_def)
qed

section \<open>Properties of module_provisioning_rhel_content\<close>

lemma fst_bind_run:
  "fst (bind_run m f) = fst m @ (case snd m of Inl e \<Rightarrow> [] | Inr x \<Rightarrow> fst (f x))"
  by (cases m) (auto simp: bind_run_def split: sum.splits prod.splits)

lemma snd_bind_run:
  "snd (bind_run m f) = (case snd m of Inl e \<Rightarrow> Inl e | Inr x \<Rightarrow> snd (f x))"
  by (cases m) (auto simp: bind_run_def split: sum.splits prod.splits)

lemma fst_then_run:
  "fst (then_run m n) = fst m @ (case snd m of Inl e \<Rightarrow> [] | Inr x \<Rightarrow> fst n)"
  by (simp add: then_run_def fst_bind_run)

lemma snd_then_run:
  "snd (then_run m n) = (case snd m of Inl e \<Rightarrow> Inl e | Inr x \<Rightarrow> snd n)"
  by (simp add: then_run_def snd_bind_run)

lemma run_simps [simp]:
  "fst (ret x) = []" "snd (ret x) = Inr x"
  "fst (raise e) = []" "snd (raise e) = Inl e"
  "fst (emit ev) = [ev]" "snd (emit ev) = Inr ()"
  by (simp_all add: ret_def raise_def emit_def)

lemma fst_lookup [simp]: "fst (lookup m k) = []"
  by (simp add: lookup_def split: option.splits)

lemma snd_lookup: "snd (lookup m k) = (case m k of None \<Rightarrow> Inl (KeyError k) | Some v \<Rightarrow> Inr v)"
  by (simp add: lookup_def split: option.splits)

lemma fst_first [simp]: "fst (first xs) = []"
  by (simp add: first_def split: list.splits)

lemma snd_first: "snd (first xs) = (case xs of [] \<Rightarrow> Inl IndexError | x # _ \<Rightarrow> Inr x)"
  by (simp add: first_def split: list.splits)

lemmas run_eqs = fst_bind_run snd_bind_run fst_then_run snd_then_run snd_lookup snd_first

lemma enabled_append [simp]: "enabled kd (a @ b) = enabled kd a @ enabled kd b"
  by (induction kd a rule: enabled.induct) auto

lemma synced_append [simp]: "synced (a @ b) = synced a @ synced b"
  by (induction a rule: synced.induct) auto

lemma registered_append [simp]: "registered (a @ b) = registered a @ registered b"
  by (induction a rule: registered.induct) auto

lemma set_synced: "set (synced tr) = {i. RepositorySync i \<in> set tr}"
  by (induction tr rule: synced.induct) auto

lemma set_enabled: "set (enabled kd tr) = {n. EnableRhRepo kd n \<in> set tr}"
  by (induction kd tr rule: enabled.induct) auto

lemma snd_sync_step:
  "snd (sync_step r ids st) =
     Inr (st\<lparr>tasks := tasks st @ map (sync_task r) (filter (\<lambda>i. i \<noteq> 0) ids),
             rh_repos := rh_repos st @ filter (\<lambda>i. i \<noteq> 0) ids,
             cv_repository := cv_repository st @ filter (\<lambda>i. i \<noteq> 0) ids\<rparr>)"
  by (induction r ids st rule: sync_step.induct) (simp_all add: run_eqs)

lemma synced_sync_step: "synced (fst (sync_step r ids st)) = filter (\<lambda>i. i \<noteq> 0) ids"
  by (induction r ids st rule: sync_step.induct) (simp_all add: run_eqs)

lemma registered_sync_step: "registered (fst (sync_step r ids st)) = filter (\<lambda>i. i \<noteq> 0) ids"
  by (induction r ids st rule: sync_step.induct) (simp_all add: run_eqs)

lemma enabled_sync_step: "enabled kd (fst (sync_step r ids st)) = []"
  by (induction r ids st rule: sync_step.induct) (simp_all add: run_eqs)

lemma late_sync_step: "ev \<in> set (fst (sync_step r ids st)) \<Longrightarrow> \<not> late ev"
  by (induction r ids st rule: sync_step.induct)
     (auto simp: run_eqs split: if_splits)

lemma late_enable_and_sync: "ev \<in> set (fst (enable_and_sync k r ptype names st)) \<Longrightarrow> \<not> late ev"
proof (induction names arbitrary: st)
  case Nil
  then show ?case by simp
next
  case (Cons name names)
  then show ?case
    by (auto simp: run_eqs split: option.splits if_splits sum.splits
        dest!: late_sync_step)
qed


lemma enabled_kickstart_loop:
  "snd (enable_and_sync k r ptype names st) = Inr st' \<Longrightarrow>
   enabled Kickstart (fst (enable_and_sync k r ptype names st)) = names"
proof (induction names arbitrary: st)
  case Nil
  then show ?case by simp
next
  case (Cons name names)
  then show ?case
    by (auto simp: run_eqs enabled_sync_step snd_sync_step split: option.splits if_splits)
qed

lemma loop_lists:
  "snd (enable_and_sync k r ptype names st) = Inr st' \<Longrightarrow>
   tasks st' = tasks st @ map (sync_task r) (synced (fst (enable_and_sync k r ptype names st)))
   \<and> rh_repos st' = rh_repos st @ registered (fst (enable_and_sync k r ptype names st))"
proof (induction names arbitrary: st)
  case Nil
  then show ?case by simp
next
  case (Cons name names)
  then show ?case
    by (auto simp: run_eqs synced_sync_step registered_sync_step snd_sync_step
        split: option.splits if_splits)
qed

lemma discovery_no_content:
  "enabled Content (fst (enable_and_sync k r ''discovery'' names st)) = []"
proof (induction names arbitrary: st)
  case Nil
  then show ?case by simp
next
  case (Cons name names)
  then show ?case
    by (auto simp: run_eqs enabled_sync_step snd_sync_step split: option.splits)
qed

lemma discovery_synced:
  "rh_repo_id st = 0 \<Longrightarrow>
   set (synced (fst (enable_and_sync k r ''discovery'' names st)))
     \<subseteq> kickstart_id k r ` set (enabled Kickstart (fst (enable_and_sync k r ''discovery'' names st)))"
proof (induction names arbitrary: st)
  case Nil
  then show ?case by simp
next
  case (Cons name names)
  show ?case
  proof (cases "REPOS_kickstart k name")
    case None
    then show ?thesis by (simp add: run_eqs)
  next
    case (Some ke)
    let ?st = "st\<lparr>rh_repo_id := 0, tasks := tasks st @ map (sync_task r) (filter (\<lambda>i. i \<noteq> 0) [kickstart_id k r name, 0]),
             rh_repos := rh_repos st @ filter (\<lambda>i. i \<noteq> 0) [kickstart_id k r name, 0],
             cv_repository := cv_repository st @ filter (\<lambda>i. i \<noteq> 0) [kickstart_id k r name, 0]\<rparr>"
    have "rh_repo_id ?st = 0" by simp
    from Cons.IH [OF this] Some Cons.prems show ?thesis
      by (auto simp: run_eqs synced_sync_step enabled_sync_step snd_sync_step kickstart_id_def)
  qed
qed

lemma content_loop:
  "ptype \<noteq> ''discovery'' \<Longrightarrow> snd (enable_and_sync k r ptype names st) = Inr st' \<Longrightarrow>
   enabled Content (fst (enable_and_sync k r ptype names st)) = names
   \<and> (\<forall>name \<in> set names. content_id k r name \<noteq> 0 \<longrightarrow>
         content_id k r name \<in> set (synced (fst (enable_and_sync k r ptype names st))))"
proof (induction names arbitrary: st)
  case Nil
  then show ?case by simp
next
  case (Cons name names)
  from Cons.prems obtain ke where ke: "REPOS_kickstart k name = Some ke"
    by (cases "REPOS_kickstart k name") (auto simp: run_eqs)
  from Cons.prems ke obtain ce where ce: "REPOS k name = Some ce"
    by (cases "REPOS k name") (auto simp: run_eqs)
  define ids where "ids = [kickstart_id k r name, content_id k r name]"
  define st2 where "st2 = st\<lparr>rh_repo_id := content_id k r name,
                 tasks := tasks st @ map (sync_task r) (filter (\<lambda>i. i \<noteq> 0) ids),
                 rh_repos := rh_repos st @ filter (\<lambda>i. i \<noteq> 0) ids,
                 cv_repository := cv_repository st @ filter (\<lambda>i. i \<noteq> 0) ids\<rparr>"
  have tr: "fst (enable_and_sync k r ptype (name # names) st) =
      [EnableRhRepo Kickstart name, EnableRhRepo Content name]
        @ fst (sync_step r ids (st\<lparr>rh_repo_id := content_id k r name\<rparr>))
        @ fst (enable_and_sync k r ptype names st2)"
    unfolding st2_def ids_def using Cons.prems(1) ke ce
    by (simp add: run_eqs snd_sync_step kickstart_id_def content_id_def)
  have res: "snd (enable_and_sync k r ptype (name # names) st) =
      snd (enable_and_sync k r ptype names st2)"
    unfolding st2_def ids_def using Cons.prems(1) ke ce
    by (simp add: run_eqs snd_sync_step kickstart_id_def content_id_def)
  from Cons.IH [OF Cons.prems(1), of st2] Cons.prems(2) res
  have ih: "enabled Content (fst (enable_and_sync k r ptype names st2)) = names"
    "\<forall>name \<in> set names. content_id k r name \<noteq> 0 \<longrightarrow>
         content_id k r name \<in> set (synced (fst (enable_and_sync k r ptype names st2)))"
    by simp_all
  show ?case
    unfolding tr using ih
    by (auto simp: enabled_sync_step synced_sync_step ids_def
        simp del: enable_and_sync.simps sync_step.simps)
qed

subsection \<open>Waiting, the operating system, publishing\<close>

lemma first_registered:
  assumes "snd (enable_and_sync k r ptype (name # names) st) = Inr st'"
    and "kickstart_id k r name \<noteq> 0"
  shows "\<exists>rest. registered (fst (enable_and_sync k r ptype (name # names) st)) =
           kickstart_id k r name # rest"
proof -
  from assms(1) obtain ke where ke: "REPOS_kickstart k name = Some ke"
    by (cases "REPOS_kickstart k name") (auto simp: run_eqs)
  show ?thesis
  proof (cases "ptype = ''discovery''")
    case True
    with ke assms(2) show ?thesis
      by (simp add: run_eqs snd_sync_step registered_sync_step kickstart_id_def)
  next
    case False
    with assms(1) ke obtain ce where ce: "REPOS k name = Some ce"
      by (cases "REPOS k name") (auto simp: run_eqs)
    with False ke assms(2) show ?thesis
      by (simp add: run_eqs snd_sync_step registered_sync_step kickstart_id_def)
  qed
qed

lemma wait_for_sync_ok:
  "snd (wait_for_sync r ts) = Inr u \<Longrightarrow> t \<in> set ts \<Longrightarrow> poll_result r t = ''success''"
  by (induction ts) (auto simp: run_eqs split: option.splits if_splits)

lemma late_wait_for_sync: "ev \<in> set (fst (wait_for_sync r ts)) \<Longrightarrow> \<not> late ev"
  by (induction ts) (auto simp: run_eqs split: option.splits if_splits)

lemma quiet_wait_for_sync:
  "synced (fst (wait_for_sync r ts)) = []"
  "registered (fst (wait_for_sync r ts)) = []"
  "enabled kd (fst (wait_for_sync r ts)) = []"
  by (induction ts) (auto simp: run_eqs split: option.splits if_splits)

lemma late_resolve_os: "ev \<in> set (fst (resolve_os k r v)) \<Longrightarrow> \<not> late ev"
  by (auto simp: resolve_os_def run_eqs list.case_eq_if split: option.splits sum.splits if_splits)

lemma quiet_resolve_os:
  "synced (fst (resolve_os k r v)) = []"
  "registered (fst (resolve_os k r v)) = []"
  "enabled kd (fst (resolve_os k r v)) = []"
  by (auto simp: resolve_os_def run_eqs split: option.splits sum.splits list.splits)

lemma quiet_publish_and_key:
  "synced (fst (publish_and_key r st os)) = []"
  "registered (fst (publish_and_key r st os)) = []"
  "enabled kd (fst (publish_and_key r st os)) = []"
  by (auto simp: publish_and_key_def run_eqs split: option.splits sum.splits list.splits)

lemma ksrepo_publish_and_key:
  "snd (publish_and_key r st os) = Inr b \<Longrightarrow> rh_repos st \<noteq> [] \<and> ksrepo b = hd (rh_repos st)"
  by (auto simp: publish_and_key_def run_eqs split: option.splits sum.splits list.splits if_splits)

lemma repo_names_of_run:
  "fst (repo_names_of v) = []"
  "snd (repo_names_of v) =
     (case py_int v of
        Inl e \<Rightarrow> Inl e
      | Inr n \<Rightarrow> Inr (if n \<le> 7 then [''rhel'' @ py_str v]
                      else [''rhel'' @ py_str v @ ''_bos'', ''rhel'' @ py_str v @ ''_aps'']))"
  by (simp_all add: repo_names_of_def split: sum.splits)

lemma fst_module:
  "fst (module_provisioning_rhel_content k r v p) =
     fst (enable_repositories k r v p) @
     (case snd (enable_repositories k r v p) of
        Inl e \<Rightarrow> []
      | Inr st \<Rightarrow>
          fst (wait_for_sync r (tasks st)) @
          (case snd (wait_for_sync r (tasks st)) of
             Inl e \<Rightarrow> []
           | Inr u \<Rightarrow>
               fst (resolve_os k r v) @
               (case snd (resolve_os k r v) of
                  Inl e \<Rightarrow> []
                | Inr os \<Rightarrow> fst (publish_and_key r st os))))"
  by (simp add: module_provisioning_rhel_content_def run_eqs split: sum.splits)

lemma snd_module_Inr:
  "snd (module_provisioning_rhel_content k r v p) = Inr b \<Longrightarrow>
   \<exists>st os. snd (enable_repositories k r v p) = Inr st
     \<and> snd (wait_for_sync r (tasks st)) = Inr ()
     \<and> snd (resolve_os k r v) = Inr os
     \<and> snd (publish_and_key r st os) = Inr b"
  by (auto simp: module_provisioning_rhel_content_def run_eqs split: sum.splits)

subsection \<open>The fixture as a whole\<close>

lemma enable_repositories_Inr:
  assumes "snd (enable_repositories k r v p) = Inr st"
  shows "\<exists>n url. py_int v = Inr n
      \<and> snd (enable_and_sync k r p
               (if n \<le> 7 then [''rhel'' @ py_str v]
                else [''rhel'' @ py_str v @ ''_bos'', ''rhel'' @ py_str v @ ''_aps''])
               (start_state r)) = Inr st
      \<and> fst (enable_repositories k r v p) =
          [ContentViewCreate, ProductCreate (''rhel'' @ py_str v @ ''_'' @ gen_alpha k),
           RepositoryCreate url, RepositorySync (client_repo r)]
          @ fst (enable_and_sync k r p
               (if n \<le> 7 then [''rhel'' @ py_str v]
                else [''rhel'' @ py_str v @ ''_bos'', ''rhel'' @ py_str v @ ''_aps''])
               (start_state r))"
  using assms
  by (auto simp: enable_repositories_def run_eqs repo_names_of_run start_state_def
      simp del: enable_and_sync.simps split: sum.splits option.splits)

lemma late_enable_repositories: "ev \<in> set (fst (enable_repositories k r v p)) \<Longrightarrow> \<not> late ev"
  by (auto simp: enable_repositories_def run_eqs repo_names_of_run
      simp del: enable_and_sync.simps split: sum.splits option.splits
      dest!: late_enable_and_sync)

lemma projections_module:
  "synced (fst (module_provisioning_rhel_content k r v p)) = synced (fst (enable_repositories k r v p))"
  "registered (fst (module_provisioning_rhel_content k r v p)) = registered (fst (enable_repositories k r v p))"
  "enabled kd (fst (module_provisioning_rhel_content k r v p)) = enabled kd (fst (enable_repositories k r v p))"
  by (simp_all add: fst_module quiet_wait_for_sync quiet_resolve_os quiet_publish_and_key
      split: sum.splits)

lemma enable_repositories_lists:
  assumes "snd (enable_repositories k r v p) = Inr st"
  shows "tasks st = map (sync_task r) (synced (fst (enable_repositories k r v p)))"
    and "rh_repos st = registered (fst (enable_repositories k r v p))"
proof -
  from enable_repositories_Inr [OF assms] obtain n :: int and url where
    loop: "snd (enable_and_sync k r p
               (if n \<le> 7 then [''rhel'' @ py_str v]
                else [''rhel'' @ py_str v @ ''_bos'', ''rhel'' @ py_str v @ ''_aps''])
               (start_state r)) = Inr st"
    and tr: "fst (enable_repositories k r v p) =
          [ContentViewCreate, ProductCreate (''rhel'' @ py_str v @ ''_'' @ gen_alpha k),
           RepositoryCreate url, RepositorySync (client_repo r)]
          @ fst (enable_and_sync k r p
               (if n \<le> 7 then [''rhel'' @ py_str v]
                else [''rhel'' @ py_str v @ ''_bos'', ''rhel'' @ py_str v @ ''_aps''])
               (start_state r))"
    by (elim exE conjE)
  from loop_lists [OF loop]
  show "tasks st = map (sync_task r) (synced (fst (enable_repositories k r v p)))"
    and "rh_repos st = registered (fst (enable_repositories k r v p))"
    by (simp_all add: tr start_state_def)
qed

subsection \<open>Sample runs\<close>

lemmas run_defs =
  module_provisioning_rhel_content_def enable_repositories_def repo_names_of_def
  resolve_os_def publish_and_key_def kickstart_version_key_def
  bind_run_def then_run_def ret_def raise_def emit_def lookup_def first_def
  py_int_def py_str_def str_int_def str_nat.simps digit_char_def

lemmas example_defs =
  example_environment_def example_remote_def failing_remote_def release_version_def
  all_ascii_digits_def is_ascii_digit_def nat_of_digits_def digit_val_def

lemma run_rhel7_failing_sync:
  "module_provisioning_rhel_content example_environment failing_remote (PInt 7) [] =
     ([ContentViewCreate, ProductCreate ''rhel7_xyz'', RepositoryCreate ''http://client/7'',
       RepositorySync 1, EnableRhRepo Kickstart ''rhel7'', EnableRhRepo Content ''rhel7'',
       RepositoryRead 9, RepositorySync 9, ContentViewUpdate [1, 9],
       RepositoryRead 11, RepositorySync 11, ContentViewUpdate [1, 9, 11],
       WaitForTasks 101, TaskPoll 101],
      Inl (AssertionError []))"
  by (simp add: run_defs example_defs)

lemma run_rhel6:
  "module_provisioning_rhel_content example_environment example_remote (PInt 6) [] =
     ([ContentViewCreate, ProductCreate ''rhel6_xyz'', RepositoryCreate ''http://client/6'',
       RepositorySync 1, EnableRhRepo Kickstart ''rhel6'', EnableRhRepo Content ''rhel6'',
       RepositoryRead 9, RepositorySync 9, ContentViewUpdate [1, 9],
       RepositoryRead 11, RepositorySync 11, ContentViewUpdate [1, 9, 11],
       WaitForTasks 101, TaskPoll 101, WaitForTasks 109, TaskPoll 109,
       WaitForTasks 111, TaskPoll 111],
      Inl (KeyError ''rhel6_bos''))"
  by (simp add: run_defs example_defs)

lemma run_rhel9:
  "module_provisioning_rhel_content example_environment example_remote (PInt 9) [] =
     ([ContentViewCreate, ProductCreate ''rhel9_xyz'', RepositoryCreate ''http://client/9'',
       RepositorySync 1,
       EnableRhRepo Kickstart ''rhel9_bos'', EnableRhRepo Content ''rhel9_bos'',
       RepositoryRead 16, RepositorySync 16, ContentViewUpdate [1, 16],
       RepositoryRead 18, RepositorySync 18, ContentViewUpdate [1, 16, 18],
       EnableRhRepo Kickstart ''rhel9_aps'', EnableRhRepo Content ''rhel9_aps'',
       RepositoryRead 19, RepositorySync 19, ContentViewUpdate [1, 16, 18, 19],
       RepositoryRead 21, RepositorySync 21, ContentViewUpdate [1, 16, 18, 19, 21],
       WaitForTasks 101, TaskPoll 101, WaitForTasks 116, TaskPoll 116,
       WaitForTasks 118, TaskPoll 118, WaitForTasks 119, TaskPoll 119,
       WaitForTasks 121, TaskPoll 121,
       OperatingSystemSearch 9 3, OperatingSystemRead 903, ContentViewPublish,
       WaitForPublish 500, ContentViewSearch, ActivationKeyCreate 40],
      Inr \<lparr>bundle_os = 903, bundle_ak = 50, ksrepo = 16, bundle_cv = 40\<rparr>)"
  by (simp add: run_defs example_defs)

lemma run_rhel9_discovery:
  "module_provisioning_rhel_content example_environment example_remote (PInt 9) ''discovery'' =
     ([ContentViewCreate, ProductCreate ''rhel9_xyz'', RepositoryCreate ''http://client/9'',
       RepositorySync 1,
       EnableRhRepo Kickstart ''rhel9_bos'', RepositoryRead 16, RepositorySync 16,
       ContentViewUpdate [1, 16],
       EnableRhRepo Kickstart ''rhel9_aps'', RepositoryRead 19, RepositorySync 19,
       ContentViewUpdate [1, 16, 19],
       WaitForTasks 101, TaskPoll 101, WaitForTasks 116, TaskPoll 116,
       WaitForTasks 119, TaskPoll 119,
       OperatingSystemSearch 9 3, OperatingSystemRead 903, ContentViewPublish,
       WaitForPublish 500, ContentViewSearch, ActivationKeyCreate 40],
      Inr \<lparr>bundle_os = 903, bundle_ak = 50, ksrepo = 16, bundle_cv = 40\<rparr>)"
  by (simp add: run_defs example_defs)

subsection \<open>The claims about the content fixture\<close>

text \<open>
  C1. If the task of any repository sync that the fixture started has a polled result
  other than \<^verbatim>\<open>success\<close>, the run never publishes the content view and never creates
  an activation key.
\<close>

theorem failed_sync_never_publishes:
  assumes "RepositorySync i \<in> set (fst (module_provisioning_rhel_content k r v p))"
    and "poll_result r (sync_task r i) \<noteq> ''success''"
  shows "ContentViewPublish \<notin> set (fst (module_provisioning_rhel_content k r v p))
       \<and> (\<forall>c. ActivationKeyCreate c \<notin> set (fst (module_provisioning_rhel_content k r v p)))"
proof -
  have nolate: "\<forall>ev \<in> set (fst (module_provisioning_rhel_content k r v p)). \<not> late ev"
  proof (cases "snd (enable_repositories k r v p)")
    case (Inl e)
    then show ?thesis
      by (auto simp: fst_module dest: late_enable_repositories)
  next
    case (Inr st)
    from assms(1) have "i \<in> set (synced (fst (module_provisioning_rhel_content k r v p)))"
      by (simp add: set_synced)
    then have "i \<in> set (synced (fst (enable_repositories k r v p)))"
      by (simp only: projections_module)
    then have "sync_task r i \<in> set (tasks st)"
      by (simp add: enable_repositories_lists(1) [OF Inr])
    with assms(2) have "\<forall>u. snd (wait_for_sync r (tasks st)) \<noteq> Inr u"
      using wait_for_sync_ok by blast
    then obtain e where "snd (wait_for_sync r (tasks st)) = Inl e"
      by (cases "snd (wait_for_sync r (tasks st))") auto
    with Inr show ?thesis
      by (auto simp: fst_module dest: late_enable_repositories late_wait_for_sync)
  qed
  then show ?thesis by auto
qed

theorem failed_sync_never_publishes_witness:
  "RepositorySync 1
     \<in> set (fst (module_provisioning_rhel_content example_environment failing_remote (PInt 7) []))
   \<and> poll_result failing_remote (sync_task failing_remote 1) \<noteq> ''success''
   \<and> ContentViewPublish
     \<notin> set (fst (module_provisioning_rhel_content example_environment failing_remote (PInt 7) []))
   \<and> ActivationKeyCreate 40
     \<notin> set (fst (module_provisioning_rhel_content example_environment failing_remote (PInt 7) []))"
proof -
  have s: "RepositorySync 1
     \<in> set (fst (module_provisioning_rhel_content example_environment failing_remote (PInt 7) []))"
    by (simp add: run_rhel7_failing_sync)
  have p: "poll_result failing_remote (sync_task failing_remote 1) \<noteq> ''success''"
    by (simp add: failing_remote_def example_remote_def)
  from failed_sync_never_publishes [OF s p] s p show ?thesis by blast
qed

text \<open>
  C4. The key under which the kickstart version is looked up is \<^verbatim>\<open>rhel{v}\<close> only when
  the requested version is the integer 7; every other version, also one below 7 that
  line 39 gives the single combined repository, is looked up under \<^verbatim>\<open>rhel{v}_bos\<close>.
  For version 6, with constants that list \<^verbatim>\<open>rhel6\<close>, the combined repository is
  enabled and synced and the run then ends in \<^verbatim>\<open>KeyError('rhel6_bos')\<close>.
\<close>

theorem kickstart_version_key_of_rhel6:
  "snd (repo_names_of (PInt 6)) = Inr [''rhel6'']
   \<and> kickstart_version_key (PInt 6) = ''rhel6_bos''
   \<and> snd (module_provisioning_rhel_content example_environment example_remote (PInt 6) [])
       = Inl (KeyError ''rhel6_bos'')
   \<and> snd (repo_names_of (PStr ''7'')) = Inr [''rhel7'']
   \<and> kickstart_version_key (PStr ''7'') = ''rhel7_bos''"
  by (simp add: run_rhel6 repo_names_of_run py_int_def py_str_def str_int_def str_nat.simps
      digit_char_def kickstart_version_key_def int_of_str_def strip_def is_space_def
      all_ascii_digits_def is_ascii_digit_def nat_of_digits_def digit_val_def)

text \<open>
  The rest of C4 holds as stated: the key is \<^verbatim>\<open>rhel7\<close> for the integer 7 and
  \<^verbatim>\<open>rhel{v}_bos\<close> above it, and when the search finds no operating system of that major
  and minor version the run ends in an assertion error that names the version.
\<close>

lemma kickstart_version_key_from_7:
  "kickstart_version_key (PInt 7) = ''rhel7''"
  "7 < n \<Longrightarrow> kickstart_version_key (PInt n) = ''rhel'' @ str_int n @ ''_bos''"
  by (auto simp: kickstart_version_key_def py_str_def str_int_def str_nat.simps digit_char_def)

lemma operating_system_not_found:
  assumes "REPOS_kickstart k (kickstart_version_key v) = Some ke"
    and "Version k (ks_version ke) = Inr rhel_xy"
    and "os_search r (major rhel_xy) (minor rhel_xy) = []"
  shows "snd (resolve_os k r v) =
     Inl (AssertionError (''Operating system RHEL '' @ version_text rhel_xy @ '' was not found''))"
  using assms by (simp add: resolve_os_def run_eqs)

lemma fst_enable_repositories:
  "fst (enable_repositories k r v p) =
     (case py_int v of
        Inl e \<Rightarrow> []
      | Inr n \<Rightarrow>
          [ContentViewCreate, ProductCreate (''rhel'' @ py_str v @ ''_'' @ gen_alpha k)] @
          (case SATCLIENT_REPO k (''rhel'' @ py_str v) of
             None \<Rightarrow> []
           | Some url \<Rightarrow>
               [RepositoryCreate url, RepositorySync (client_repo r)] @
               fst (enable_and_sync k r p
                      (if n \<le> 7 then [''rhel'' @ py_str v]
                       else [''rhel'' @ py_str v @ ''_bos'', ''rhel'' @ py_str v @ ''_aps''])
                      (start_state r))))"
  by (simp add: enable_repositories_def run_eqs repo_names_of_run start_state_def
      del: enable_and_sync.simps split: sum.splits option.splits)

text \<open>
  C2. When the enabling loop completes, the kickstart repositories enabled are exactly
  the combined \<^verbatim>\<open>rhel{v}\<close> when \<^verbatim>\<open>int(v) <= 7\<close>, and \<^verbatim>\<open>rhel{v}_bos\<close> then
  \<^verbatim>\<open>rhel{v}_aps\<close> when \<^verbatim>\<open>int(v) > 7\<close>. When the fixture returns a bundle, its
  kickstart repository is the first vendor repository registered, which is the
  kickstart repository of the first name (the combined one, or BaseOS) whenever the
  server gave that one a non-zero id.
\<close>

theorem kickstart_repos_enabled_and_first_returned:
  "(\<forall>st. snd (enable_repositories k r v p) = Inr st \<longrightarrow>
      (\<exists>n. py_int v = Inr n
         \<and> enabled Kickstart (fst (module_provisioning_rhel_content k r v p)) =
             (if n \<le> 7 then [''rhel'' @ py_str v]
              else [''rhel'' @ py_str v @ ''_bos'', ''rhel'' @ py_str v @ ''_aps''])))
   \<and> (\<forall>b. snd (module_provisioning_rhel_content k r v p) = Inr b \<longrightarrow>
      (\<exists>rest. registered (fst (module_provisioning_rhel_content k r v p)) = ksrepo b # rest)
      \<and> (\<exists>n. py_int v = Inr n
           \<and> (kickstart_id k r
                 (if n \<le> 7 then ''rhel'' @ py_str v else ''rhel'' @ py_str v @ ''_bos'') \<noteq> 0
               \<longrightarrow> ksrepo b =
                 kickstart_id k r
                   (if n \<le> 7 then ''rhel'' @ py_str v else ''rhel'' @ py_str v @ ''_bos''))))"
proof (intro conjI allI impI)
  fix st assume E: "snd (enable_repositories k r v p) = Inr st"
  from enable_repositories_Inr [OF E] obtain n :: int and url where
    n: "py_int v = Inr n"
    and loop: "snd (enable_and_sync k r p
               (if n \<le> 7 then [''rhel'' @ py_str v]
                else [''rhel'' @ py_str v @ ''_bos'', ''rhel'' @ py_str v @ ''_aps''])
               (start_state r)) = Inr st"
    and tr: "fst (enable_repositories k r v p) =
          [ContentViewCreate, ProductCreate (''rhel'' @ py_str v @ ''_'' @ gen_alpha k),
           RepositoryCreate url, RepositorySync (client_repo r)]
          @ fst (enable_and_sync k r p
               (if n \<le> 7 then [''rhel'' @ py_str v]
                else [''rhel'' @ py_str v @ ''_bos'', ''rhel'' @ py_str v @ ''_aps''])
               (start_state r))"
    by (elim exE conjE)
  have "enabled Kickstart (fst (module_provisioning_rhel_content k r v p)) =
      enabled Kickstart (fst (enable_repositories k r v p))"
    by (simp only: projections_module)
  also have "\<dots> = enabled Kickstart (fst (enable_and_sync k r p
               (if n \<le> 7 then [''rhel'' @ py_str v]
                else [''rhel'' @ py_str v @ ''_bos'', ''rhel'' @ py_str v @ ''_aps''])
               (start_state r)))"
    unfolding tr by simp
  also have "\<dots> = (if n \<le> 7 then [''rhel'' @ py_str v]
                else [''rhel'' @ py_str v @ ''_bos'', ''rhel'' @ py_str v @ ''_aps''])"
    by (rule enabled_kickstart_loop [OF loop])
  finally show "\<exists>n. py_int v = Inr n
         \<and> enabled Kickstart (fst (module_provisioning_rhel_content k r v p)) =
             (if n \<le> 7 then [''rhel'' @ py_str v]
              else [''rhel'' @ py_str v @ ''_bos'', ''rhel'' @ py_str v @ ''_aps''])"
    using n by blast
next
  fix b assume R: "snd (module_provisioning_rhel_content k r v p) = Inr b"
  from snd_module_Inr [OF R] obtain st os where
    E: "snd (enable_repositories k r v p) = Inr st"
    and P: "snd (publish_and_key r st os) = Inr b"
    by blast
  from ksrepo_publish_and_key [OF P]
  have ne: "rh_repos st \<noteq> []" and ks: "ksrepo b = hd (rh_repos st)" by simp_all
  have reg: "registered (fst (module_provisioning_rhel_content k r v p)) = rh_repos st"
    by (simp only: projections_module enable_repositories_lists(2) [OF E])
  from ne ks reg
  show "\<exists>rest. registered (fst (module_provisioning_rhel_content k r v p)) = ksrepo b # rest"
    by (cases "rh_repos st") simp_all
  from enable_repositories_Inr [OF E] obtain n :: int and url where
    n: "py_int v = Inr n"
    and loop: "snd (enable_and_sync k r p
               (if n \<le> 7 then [''rhel'' @ py_str v]
                else [''rhel'' @ py_str v @ ''_bos'', ''rhel'' @ py_str v @ ''_aps''])
               (start_state r)) = Inr st"
    and tr: "fst (enable_repositories k r v p) =
          [ContentViewCreate, ProductCreate (''rhel'' @ py_str v @ ''_'' @ gen_alpha k),
           RepositoryCreate url, RepositorySync (client_repo r)]
          @ fst (enable_and_sync k r p
               (if n \<le> 7 then [''rhel'' @ py_str v]
                else [''rhel'' @ py_str v @ ''_bos'', ''rhel'' @ py_str v @ ''_aps''])
               (start_state r))"
    by (elim exE conjE)
  define name where
    "name = (if n \<le> 7 then ''rhel'' @ py_str v else ''rhel'' @ py_str v @ ''_bos'')"
  define names where
    "names = (if n \<le> 7 then [] else [''rhel'' @ py_str v @ ''_aps''])"
  have split: "(if n \<le> 7 then [''rhel'' @ py_str v]
                else [''rhel'' @ py_str v @ ''_bos'', ''rhel'' @ py_str v @ ''_aps''])
      = name # names"
    by (simp add: name_def names_def)
  have "kickstart_id k r name \<noteq> 0 \<longrightarrow> ksrepo b = kickstart_id k r name"
  proof
    assume nz: "kickstart_id k r name \<noteq> 0"
    from loop have loop': "snd (enable_and_sync k r p (name # names) (start_state r)) = Inr st"
      by (simp only: split)
    from first_registered [OF loop' nz] obtain rest where
      "registered (fst (enable_and_sync k r p (name # names) (start_state r))) =
         kickstart_id k r name # rest" ..
    then have "registered (fst (enable_repositories k r v p)) = kickstart_id k r name # rest"
      unfolding tr split by (simp del: enable_and_sync.simps)
    then have "rh_repos st = kickstart_id k r name # rest"
      by (simp only: enable_repositories_lists(2) [OF E])
    with ks show "ksrepo b = kickstart_id k r name" by simp
  qed
  with n show "\<exists>n. py_int v = Inr n
           \<and> (kickstart_id k r
                 (if n \<le> 7 then ''rhel'' @ py_str v else ''rhel'' @ py_str v @ ''_bos'') \<noteq> 0
               \<longrightarrow> ksrepo b =
                 kickstart_id k r
                   (if n \<le> 7 then ''rhel'' @ py_str v else ''rhel'' @ py_str v @ ''_bos''))"
    unfolding name_def by blast
qed


lemma run_enable_rhel9:
  "enable_repositories example_environment example_remote (PInt 9) [] =
     ([ContentViewCreate, ProductCreate ''rhel9_xyz'', RepositoryCreate ''http://client/9'',
       RepositorySync 1,
       EnableRhRepo Kickstart ''rhel9_bos'', EnableRhRepo Content ''rhel9_bos'',
       RepositoryRead 16, RepositorySync 16, ContentViewUpdate [1, 16],
       RepositoryRead 18, RepositorySync 18, ContentViewUpdate [1, 16, 18],
       EnableRhRepo Kickstart ''rhel9_aps'', EnableRhRepo Content ''rhel9_aps'',
       RepositoryRead 19, RepositorySync 19, ContentViewUpdate [1, 16, 18, 19],
       RepositoryRead 21, RepositorySync 21, ContentViewUpdate [1, 16, 18, 19, 21]],
      Inr \<lparr>rh_repo_id = 21, tasks = [101, 116, 118, 119, 121], rh_repos = [16, 18, 19, 21],
           cv_repository = [1, 16, 18, 19, 21]\<rparr>)"
  by (simp add: run_defs example_defs)

lemma example_ids:
  "kickstart_id example_environment example_remote ''rhel9_bos'' = 16"
  "kickstart_id example_environment example_remote ''rhel9_aps'' = 19"
  "content_id example_environment example_remote ''rhel9_bos'' = 18"
  "content_id example_environment example_remote ''rhel9_aps'' = 21"
  by (simp_all add: kickstart_id_def content_id_def example_defs)

theorem kickstart_repos_enabled_and_first_returned_witness:
  "enabled Kickstart
       (fst (module_provisioning_rhel_content example_environment example_remote (PInt 9) []))
     = [''rhel9_bos'', ''rhel9_aps'']
   \<and> ksrepo (projr (snd
       (module_provisioning_rhel_content example_environment example_remote (PInt 9) [])))
     = kickstart_id example_environment example_remote ''rhel9_bos''
   \<and> hd (registered
       (fst (module_provisioning_rhel_content example_environment example_remote (PInt 9) [])))
     = ksrepo (projr (snd
       (module_provisioning_rhel_content example_environment example_remote (PInt 9) [])))"
proof -
  let ?k = example_environment and ?r = example_remote
  have E: "snd (enable_repositories ?k ?r (PInt 9) []) =
      Inr \<lparr>rh_repo_id = 21, tasks = [101, 116, 118, 119, 121], rh_repos = [16, 18, 19, 21],
           cv_repository = [1, 16, 18, 19, 21]\<rparr>"
    by (simp add: run_enable_rhel9)
  have R: "snd (module_provisioning_rhel_content ?k ?r (PInt 9) []) =
      Inr \<lparr>bundle_os = 903, bundle_ak = 50, ksrepo = 16, bundle_cv = 40\<rparr>"
    by (simp add: run_rhel9)
  have nz: "kickstart_id ?k ?r (''rhel'' @ py_str (PInt 9) @ ''_bos'') \<noteq> 0"
    by (simp add: example_ids py_str_def str_int_def str_nat.simps digit_char_def)
  note claim = kickstart_repos_enabled_and_first_returned [of ?k ?r "PInt 9" "[]"]
  from claim E obtain n where n: "py_int (PInt 9) = Inr n"
    and en: "enabled Kickstart (fst (module_provisioning_rhel_content ?k ?r (PInt 9) [])) =
             (if n \<le> 7 then [''rhel'' @ py_str (PInt 9)]
              else [''rhel'' @ py_str (PInt 9) @ ''_bos'', ''rhel'' @ py_str (PInt 9) @ ''_aps''])"
    by blast
  from n have n9: "n = 9" by (simp add: py_int_def)
  from claim R obtain rest where reg:
    "registered (fst (module_provisioning_rhel_content ?k ?r (PInt 9) [])) =
       ksrepo \<lparr>bundle_os = 903, bundle_ak = 50, ksrepo = 16, bundle_cv = 40\<rparr> # rest"
    by blast
  from claim R obtain m where m: "py_int (PInt 9) = Inr m"
    and ks: "kickstart_id ?k ?r
                 (if m \<le> 7 then ''rhel'' @ py_str (PInt 9) else ''rhel'' @ py_str (PInt 9) @ ''_bos'') \<noteq> 0
               \<longrightarrow> ksrepo \<lparr>bundle_os = 903, bundle_ak = 50, ksrepo = 16, bundle_cv = 40\<rparr> =
                 kickstart_id ?k ?r
                   (if m \<le> 7 then ''rhel'' @ py_str (PInt 9) else ''rhel'' @ py_str (PInt 9) @ ''_bos'')"
    by blast
  from m have m9: "m = 9" by (simp add: py_int_def)
  from ks nz have ks': "ksrepo \<lparr>bundle_os = 903, bundle_ak = 50, ksrepo = 16, bundle_cv = 40\<rparr> =
      kickstart_id ?k ?r (''rhel'' @ py_str (PInt 9) @ ''_bos'')"
    by (simp add: m9)
  from en n9 have en': "enabled Kickstart (fst (module_provisioning_rhel_content ?k ?r (PInt 9) [])) =
      [''rhel9_bos'', ''rhel9_aps'']"
    by (simp add: py_str_def str_int_def str_nat.simps digit_char_def)
  from ks' have ks'': "ksrepo \<lparr>bundle_os = 903, bundle_ak = 50, ksrepo = 16, bundle_cv = 40\<rparr> =
      kickstart_id ?k ?r ''rhel9_bos''"
    by (simp add: py_str_def str_int_def str_nat.simps digit_char_def)
  from en' ks'' reg show ?thesis
    by (simp only: R sum.sel list.sel) 
qed

lemma synced_enable_repositories_discovery:
  "set (synced (fst (enable_repositories k r v ''discovery'')))
     \<subseteq> insert (client_repo r)
         (kickstart_id k r ` set (enabled Kickstart (fst (enable_repositories k r v ''discovery''))))"
proof (cases "py_int v")
  case (Inl e)
  then show ?thesis by (simp add: fst_enable_repositories)
next
  case (Inr n)
  show ?thesis
  proof (cases "SATCLIENT_REPO k (''rhel'' @ py_str v)")
    case None
    with Inr show ?thesis by (simp add: fst_enable_repositories)
  next
    case (Some url)
    define names where "names = (if n \<le> 7 then [''rhel'' @ py_str v]
                else [''rhel'' @ py_str v @ ''_bos'', ''rhel'' @ py_str v @ ''_aps''])"
    have z: "rh_repo_id (start_state r) = 0" by (simp add: start_state_def)
    have tr: "fst (enable_repositories k r v ''discovery'') =
        [ContentViewCreate, ProductCreate (''rhel'' @ py_str v @ ''_'' @ gen_alpha k),
         RepositoryCreate url, RepositorySync (client_repo r)]
        @ fst (enable_and_sync k r ''discovery'' names (start_state r))"
      unfolding names_def using Inr Some
      by (simp add: fst_enable_repositories del: enable_and_sync.simps)
    from discovery_synced [OF z, of k r names] show ?thesis
      unfolding tr by (auto simp del: enable_and_sync.simps)
  qed
qed

text \<open>
  C7. With the flavor \<^verbatim>\<open>discovery\<close>, whatever the outcome of the run, no content
  repository is enabled, and every repository synced is the custom client repository
  or the kickstart repository of a name that was enabled. With any other flavor, once
  the enabling loop completes, the content repository of every vendor name has been
  enabled, and synced whenever the server gave it a non-zero id.
\<close>

theorem content_repos_skipped_for_discovery:
  "enabled Content (fst (module_provisioning_rhel_content k r v ''discovery'')) = []
   \<and> (\<forall>i. RepositorySync i \<in> set (fst (module_provisioning_rhel_content k r v ''discovery''))
        \<longrightarrow> i = client_repo r
          \<or> (\<exists>name. EnableRhRepo Kickstart name
                 \<in> set (fst (module_provisioning_rhel_content k r v ''discovery''))
               \<and> i = kickstart_id k r name))
   \<and> (p \<noteq> ''discovery'' \<longrightarrow>
        (\<forall>st. snd (enable_repositories k r v p) = Inr st \<longrightarrow>
          (\<exists>n. py_int v = Inr n
             \<and> enabled Content (fst (module_provisioning_rhel_content k r v p)) =
                 (if n \<le> 7 then [''rhel'' @ py_str v]
                  else [''rhel'' @ py_str v @ ''_bos'', ''rhel'' @ py_str v @ ''_aps''])
             \<and> (\<forall>name \<in> set (if n \<le> 7 then [''rhel'' @ py_str v]
                    else [''rhel'' @ py_str v @ ''_bos'', ''rhel'' @ py_str v @ ''_aps'']).
                  content_id k r name \<noteq> 0 \<longrightarrow>
                  RepositorySync (content_id k r name)
                    \<in> set (fst (module_provisioning_rhel_content k r v p))))))"
proof (intro conjI allI impI)
  show "enabled Content (fst (module_provisioning_rhel_content k r v ''discovery'')) = []"
    by (simp add: projections_module fst_enable_repositories discovery_no_content
        del: enable_and_sync.simps split: sum.splits option.splits)
next
  fix i
  assume "RepositorySync i \<in> set (fst (module_provisioning_rhel_content k r v ''discovery''))"
  then have "i \<in> set (synced (fst (module_provisioning_rhel_content k r v ''discovery'')))"
    by (simp add: set_synced)
  then have i: "i \<in> set (synced (fst (enable_repositories k r v ''discovery'')))"
    by (simp only: projections_module)
  have en: "\<And>name. name \<in> set (enabled Kickstart (fst (enable_repositories k r v ''discovery'')))
      \<Longrightarrow> EnableRhRepo Kickstart name
           \<in> set (fst (module_provisioning_rhel_content k r v ''discovery''))"
  proof -
    fix name
    assume "name \<in> set (enabled Kickstart (fst (enable_repositories k r v ''discovery'')))"
    then have "name \<in> set (enabled Kickstart (fst (module_provisioning_rhel_content k r v ''discovery'')))"
      by (simp only: projections_module)
    then show "EnableRhRepo Kickstart name
           \<in> set (fst (module_provisioning_rhel_content k r v ''discovery''))"
      by (simp add: set_enabled)
  qed
  from i synced_enable_repositories_discovery [of k r v]
  have "i = client_repo r
      \<or> i \<in> kickstart_id k r ` set (enabled Kickstart (fst (enable_repositories k r v ''discovery'')))"
    by blast
  with en show "i = client_repo r
          \<or> (\<exists>name. EnableRhRepo Kickstart name
                 \<in> set (fst (module_provisioning_rhel_content k r v ''discovery''))
               \<and> i = kickstart_id k r name)"
    by blast
next
  fix st
  assume p: "p \<noteq> ''discovery''" and E: "snd (enable_repositories k r v p) = Inr st"
  from enable_repositories_Inr [OF E] obtain n :: int and url where
    n: "py_int v = Inr n"
    and loop: "snd (enable_and_sync k r p
               (if n \<le> 7 then [''rhel'' @ py_str v]
                else [''rhel'' @ py_str v @ ''_bos'', ''rhel'' @ py_str v @ ''_aps''])
               (start_state r)) = Inr st"
    and tr: "fst (enable_repositories k r v p) =
          [ContentViewCreate, ProductCreate (''rhel'' @ py_str v @ ''_'' @ gen_alpha k),
           RepositoryCreate url, RepositorySync (client_repo r)]
          @ fst (enable_and_sync k r p
               (if n \<le> 7 then [''rhel'' @ py_str v]
                else [''rhel'' @ py_str v @ ''_bos'', ''rhel'' @ py_str v @ ''_aps''])
               (start_state r))"
    by (elim exE conjE)
  define names where "names = (if n \<le> 7 then [''rhel'' @ py_str v]
                else [''rhel'' @ py_str v @ ''_bos'', ''rhel'' @ py_str v @ ''_aps''])"
  from content_loop [OF p loop [folded names_def]]
  have c1: "enabled Content (fst (enable_and_sync k r p names (start_state r))) = names"
    and c2: "\<forall>name \<in> set names. content_id k r name \<noteq> 0 \<longrightarrow>
         content_id k r name \<in> set (synced (fst (enable_and_sync k r p names (start_state r))))"
    by simp_all
  have a: "enabled Content (fst (module_provisioning_rhel_content k r v p)) = names"
    unfolding projections_module tr names_def [symmetric] using c1
    by (simp del: enable_and_sync.simps)
  have b: "\<forall>name \<in> set names. content_id k r name \<noteq> 0 \<longrightarrow>
      RepositorySync (content_id k r name) \<in> set (fst (module_provisioning_rhel_content k r v p))"
  proof (intro ballI impI)
    fix name assume "name \<in> set names" "content_id k r name \<noteq> 0"
    with c2 have "content_id k r name \<in> set (synced (fst (enable_and_sync k r p names (start_state r))))"
      by blast
    then have "content_id k r name \<in> set (synced (fst (enable_repositories k r v p)))"
      unfolding tr names_def [symmetric] by (simp del: enable_and_sync.simps)
    then have "content_id k r name \<in> set (synced (fst (module_provisioning_rhel_content k r v p)))"
      by (simp only: projections_module)
    then show "RepositorySync (content_id k r name)
        \<in> set (fst (module_provisioning_rhel_content k r v p))"
      by (simp add: set_synced)
  qed
  from n a b show "\<exists>n. py_int v = Inr n
             \<and> enabled Content (fst (module_provisioning_rhel_content k r v p)) =
                 (if n \<le> 7 then [''rhel'' @ py_str v]
                  else [''rhel'' @ py_str v @ ''_bos'', ''rhel'' @ py_str v @ ''_aps''])
             \<and> (\<forall>name \<in> set (if n \<le> 7 then [''rhel'' @ py_str v]
                    else [''rhel'' @ py_str v @ ''_bos'', ''rhel'' @ py_str v @ ''_aps'']).
                  content_id k r name \<noteq> 0 \<longrightarrow>
                  RepositorySync (content_id k r name)
                    \<in> set (fst (module_provisioning_rhel_content k r v p)))"
    unfolding names_def by blast
qed

theorem content_repos_skipped_for_discovery_witness:
  "enabled Content
      (fst (module_provisioning_rhel_content example_environment example_remote (PInt 9)
              ''discovery'')) = []
   \<and> RepositorySync 16
       \<in> set (fst (module_provisioning_rhel_content example_environment example_remote (PInt 9)
                    ''discovery''))
   \<and> (16 = client_repo example_remote
        \<or> (\<exists>name. EnableRhRepo Kickstart name
               \<in> set (fst (module_provisioning_rhel_content example_environment example_remote
                            (PInt 9) ''discovery''))
             \<and> 16 = kickstart_id example_environment example_remote name))
   \<and> enabled Content
       (fst (module_provisioning_rhel_content example_environment example_remote (PInt 9) []))
     = [''rhel9_bos'', ''rhel9_aps'']
   \<and> RepositorySync (content_id example_environment example_remote ''rhel9_bos'')
       \<in> set (fst (module_provisioning_rhel_content example_environment example_remote (PInt 9) []))"
proof -
  let ?k = example_environment and ?r = example_remote
  note claim = content_repos_skipped_for_discovery [of ?k ?r "PInt 9" "[]"]
  have s: "RepositorySync 16
       \<in> set (fst (module_provisioning_rhel_content ?k ?r (PInt 9) ''discovery''))"
    by (simp add: run_rhel9_discovery)
  have p: "[] \<noteq> ''discovery''" by simp
  have E: "snd (enable_repositories ?k ?r (PInt 9) []) =
      Inr \<lparr>rh_repo_id = 21, tasks = [101, 116, 118, 119, 121], rh_repos = [16, 18, 19, 21],
           cv_repository = [1, 16, 18, 19, 21]\<rparr>"
    by (simp add: run_enable_rhel9)
  have nz: "content_id ?k ?r ''rhel9_bos'' \<noteq> 0" by (simp add: example_ids)
  from claim have a: "enabled Content
      (fst (module_provisioning_rhel_content ?k ?r (PInt 9) ''discovery'')) = []"
    by blast
  from claim s have b: "16 = client_repo ?r
        \<or> (\<exists>name. EnableRhRepo Kickstart name
               \<in> set (fst (module_provisioning_rhel_content ?k ?r (PInt 9) ''discovery''))
             \<and> 16 = kickstart_id ?k ?r name)"
    by blast
  from claim p E obtain n where n: "py_int (PInt 9) = Inr n"
    and c: "enabled Content (fst (module_provisioning_rhel_content ?k ?r (PInt 9) [])) =
                 (if n \<le> 7 then [''rhel'' @ py_str (PInt 9)]
                  else [''rhel'' @ py_str (PInt 9) @ ''_bos'', ''rhel'' @ py_str (PInt 9) @ ''_aps''])"
    and d: "\<forall>name \<in> set (if n \<le> 7 then [''rhel'' @ py_str (PInt 9)]
                    else [''rhel'' @ py_str (PInt 9) @ ''_bos'', ''rhel'' @ py_str (PInt 9) @ ''_aps'']).
                  content_id ?k ?r name \<noteq> 0 \<longrightarrow>
                  RepositorySync (content_id ?k ?r name)
                    \<in> set (fst (module_provisioning_rhel_content ?k ?r (PInt 9) []))"
    by blast
  from n have n9: "n = 9" by (simp add: py_int_def)
  have str: "py_str (PInt 9) = ''9''"
    by (simp add: py_str_def str_int_def str_nat.simps digit_char_def)
  from c have c': "enabled Content (fst (module_provisioning_rhel_content ?k ?r (PInt 9) [])) =
      [''rhel9_bos'', ''rhel9_aps'']"
    by (simp add: n9 str)
  from d nz have d': "RepositorySync (content_id ?k ?r ''rhel9_bos'')
      \<in> set (fst (module_provisioning_rhel_content ?k ?r (PInt 9) []))"
    by (simp add: n9 str)
  from a s b c' d' show ?thesis by blast
qed

section \<open>Properties of the host fixtures\<close>

lemma fst_with_broker:
  "fst (with_broker n (Inr x) body teardown) =
     [Checkout n, Yield] @ fst (teardown (fst (body x))) @ [Checkin]"
  "snd (with_broker n (Inr x) body teardown) = snd (teardown (fst (body x)))"
  "with_broker n (Inl e) body teardown = ([Checkout n], Inl e)"
  by (simp_all add: with_broker_def split: prod.splits)

text \<open>
  C6. Once a single host is checked out, whatever the test body does and however it
  ends, and whatever the exit status of the restart, the run is: checkout, the test,
  \<^verbatim>\<open>systemctl restart dhcpd\<close> on the Satellite, check-in; the restart comes before the
  release. A multi-host run never executes anything on the Satellite, whether or not
  the checkout succeeds.
\<close>

theorem dhcpd_restart_only_for_single_host:
  "fst (provisioning_host (Inr h) body restart_status) =
     [Checkout 1, Yield, SatExecute ''systemctl restart dhcpd'', Checkin]
   \<and> (\<forall>c. SatExecute c \<notin> set (fst (provision_multiple_hosts param checkout bodies)))"
proof
  show "fst (provisioning_host (Inr h) body restart_status) =
     [Checkout 1, Yield, SatExecute ''systemctl restart dhcpd'', Checkin]"
    by (simp add: provisioning_host_def fst_with_broker provisioning_host_teardown_def)
  show "\<forall>c. SatExecute c \<notin> set (fst (provision_multiple_hosts param checkout bodies))"
    by (cases checkout)
       (simp_all add: provision_multiple_hosts_def fst_with_broker
          provision_multiple_hosts_teardown_def)
qed

text \<open>
  C9. The teardown of both fixtures assigns \<^verbatim>\<open>blank = getattr(host, 'blank', False)\<close>
  to every host (the single-host fixture after a restart with exit status 0; otherwise
  its assertion fails and nothing is assigned). The assignment keeps a value that was
  set, so a blank host is never turned into a configured one, and a host ends with
  \<^verbatim>\<open>blank = False\<close> that it did not have only if the attribute was missing.
\<close>

theorem teardown_keeps_blank:
  "snd (provision_multiple_hosts param (Inr hosts) bodies) = Inr (map set_blank (fst (bodies hosts)))
   \<and> snd (provisioning_host (Inr h) body 0) = Inr (set_blank (fst (body h)))
   \<and> (restart_status \<noteq> 0 \<longrightarrow>
        snd (provisioning_host (Inr h) body restart_status) = Inl (AssertionError []))
   \<and> (\<forall>v. blank x = Some v \<longrightarrow> blank (set_blank x) = Some v)
   \<and> (blank x = None \<longrightarrow> blank (set_blank x) = Some False)
   \<and> (blank (set_blank x) = Some False \<and> blank x \<noteq> Some False \<longrightarrow> blank x = None)
   \<and> host_name (set_blank x) = host_name x"
  by (auto simp: provision_multiple_hosts_def provisioning_host_def fst_with_broker
      provision_multiple_hosts_teardown_def provisioning_host_teardown_def set_blank_def
      split: option.splits)

theorem teardown_keeps_blank_witness:
  "blank (set_blank \<lparr>host_name = ''vm1'', blank = Some True\<rparr>) = Some True
   \<and> blank (set_blank \<lparr>host_name = ''vm2'', blank = None\<rparr>) = Some False
   \<and> snd (provisioning_host (Inr \<lparr>host_name = ''vm1'', blank = Some True\<rparr>)
            (\<lambda>x. (x, Failed)) 1) = Inl (AssertionError [])
   \<and> snd (provision_multiple_hosts None
            (Inr [\<lparr>host_name = ''vm1'', blank = Some True\<rparr>, \<lparr>host_name = ''vm2'', blank = None\<rparr>])
            (\<lambda>x. (x, Failed)))
       = Inr [\<lparr>host_name = ''vm1'', blank = Some True\<rparr>, \<lparr>host_name = ''vm2'', blank = Some False\<rparr>]"
proof -
  let ?h1 = "\<lparr>host_name = ''vm1'', blank = Some True\<rparr>"
  let ?h2 = "\<lparr>host_name = ''vm2'', blank = None\<rparr>"
  have a: "blank ?h1 = Some True" and b: "blank ?h2 = None" and c: "(1::int) \<noteq> 0"
    by simp_all
  from teardown_keeps_blank [of None "[?h1, ?h2]" "\<lambda>x. (x, Failed)" ?h1 "\<lambda>x. (x, Failed)" 1 ?h1] a c
  have 1: "blank (set_blank ?h1) = Some True"
    and 2: "snd (provisioning_host (Inr ?h1) (\<lambda>x. (x, Failed)) 1) = Inl (AssertionError [])"
    and 3: "snd (provision_multiple_hosts None (Inr [?h1, ?h2]) (\<lambda>x. (x, Failed)))
       = Inr (map set_blank (fst ([?h1, ?h2], Failed)))"
    by blast+
  from teardown_keeps_blank [of None "[?h1, ?h2]" "\<lambda>x. (x, Failed)" ?h1 "\<lambda>x. (x, Failed)" 1 ?h2] b
  have 4: "blank (set_blank ?h2) = Some False"
    by blast
  from 3 have 5: "snd (provision_multiple_hosts None (Inr [?h1, ?h2]) (\<lambda>x. (x, Failed)))
       = Inr [?h1, \<lparr>host_name = ''vm2'', blank = Some False\<rparr>]"
    by (simp add: set_blank_def)
  from 1 2 4 5 show ?thesis by blast
qed

section \<open>Properties of pxeless_discovery_host\<close>

lemma match_here_Some:
  "match_here s = Some m \<longleftrightarrow>
     (\<exists>run post. s = fdi_prefix @ run @ post \<and> run \<noteq> [] \<and> (\<forall>x \<in> set run. \<not> is_space x)
        \<and> (post = [] \<or> is_space (hd post)) \<and> m = fdi_prefix @ run)"
proof
  assume a: "match_here s = Some m"
  let ?d = "drop (length fdi_prefix) s"
  let ?run = "takeWhile (\<lambda>c. \<not> is_space c) ?d"
  let ?post = "dropWhile (\<lambda>c. \<not> is_space c) ?d"
  from a have pre: "take (length fdi_prefix) s = fdi_prefix" and ne: "?run \<noteq> []"
    and m: "m = fdi_prefix @ ?run"
    by (auto simp: match_here_def Let_def split: if_splits)
  have "s = take (length fdi_prefix) s @ ?d" by simp
  also have "\<dots> = fdi_prefix @ ?run @ ?post" by (simp add: pre)
  finally have s: "s = fdi_prefix @ ?run @ ?post" .
  have r: "\<forall>x \<in> set ?run. \<not> is_space x" by (auto dest: set_takeWhileD)
  have p: "?post = [] \<or> is_space (hd ?post)"
    using hd_dropWhile [of "\<lambda>c. \<not> is_space c" ?d] by auto
  from s ne r p m show "\<exists>run post. s = fdi_prefix @ run @ post \<and> run \<noteq> []
      \<and> (\<forall>x \<in> set run. \<not> is_space x) \<and> (post = [] \<or> is_space (hd post)) \<and> m = fdi_prefix @ run"
    by blast
next
  assume "\<exists>run post. s = fdi_prefix @ run @ post \<and> run \<noteq> [] \<and> (\<forall>x \<in> set run. \<not> is_space x)
        \<and> (post = [] \<or> is_space (hd post)) \<and> m = fdi_prefix @ run"
  then obtain run post where s: "s = fdi_prefix @ run @ post" and ne: "run \<noteq> []"
    and r: "\<forall>x \<in> set run. \<not> is_space x" and p: "post = [] \<or> is_space (hd post)"
    and m: "m = fdi_prefix @ run"
    by blast
  have "takeWhile (\<lambda>c. \<not> is_space c) (run @ post) = run"
  proof (cases post)
    case Nil
    with r show ?thesis by simp
  next
    case (Cons x xs)
    with p have "is_space x" by simp
    with r Cons show ?thesis by (simp add: takeWhile_tail)
  qed
  with s ne m show "match_here s = Some m"
    by (simp add: match_here_def Let_def)
qed

lemma match_here_None:
  "match_here s = None \<longleftrightarrow> (\<forall>c post. s = fdi_prefix @ c # post \<longrightarrow> is_space c)"
proof
  assume a: "match_here s = None"
  show "\<forall>c post. s = fdi_prefix @ c # post \<longrightarrow> is_space c"
  proof (intro allI impI)
    fix c post assume s: "s = fdi_prefix @ c # post"
    show "is_space c"
    proof (rule ccontr)
      assume "\<not> is_space c"
      with s have "match_here s \<noteq> None"
        by (simp add: match_here_def Let_def)
      with a show False by simp
    qed
  qed
next
  assume a: "\<forall>c post. s = fdi_prefix @ c # post \<longrightarrow> is_space c"
  show "match_here s = None"
  proof (cases "match_here s")
    case None
    then show ?thesis .
  next
    case (Some m)
    then obtain run post where s: "s = fdi_prefix @ run @ post" and ne: "run \<noteq> []"
      and r: "\<forall>x \<in> set run. \<not> is_space x"
      unfolding match_here_Some by blast
    from ne obtain c cs where run: "run = c # cs" by (cases run) auto
    with s have "s = fdi_prefix @ c # (cs @ post)" by simp
    with a have "is_space c" by blast
    with r run show ?thesis by simp
  qed
qed

lemma match_here_Nil [simp]: "match_here [] = None"
  by (simp add: match_here_def fdi_prefix_def)

lemma findall_Nil:
  "findall s = [] \<longleftrightarrow> (\<forall>k. match_here (drop k s) = None)"
proof (induction s)
  case Nil
  then show ?case by simp
next
  case (Cons c cs)
  show ?case
  proof (cases "match_here (c # cs)")
    case None
    have "(\<forall>k. match_here (drop k (c # cs)) = None) \<longleftrightarrow> (\<forall>k. match_here (drop k cs) = None)"
    proof
      assume a: "\<forall>k. match_here (drop k (c # cs)) = None"
      show "\<forall>k. match_here (drop k cs) = None"
      proof
        fix k from a have "match_here (drop (Suc k) (c # cs)) = None" by blast
        then show "match_here (drop k cs) = None" by simp
      qed
    next
      assume a: "\<forall>k. match_here (drop k cs) = None"
      show "\<forall>k. match_here (drop k (c # cs)) = None"
      proof
        fix k show "match_here (drop k (c # cs)) = None"
          using a None by (cases k) simp_all
      qed
    qed
    with None Cons.IH show ?thesis by simp
  next
    case (Some m)
    have "\<not> (\<forall>k. match_here (drop k (c # cs)) = None)"
    proof
      assume "\<forall>k. match_here (drop k (c # cs)) = None"
      then have "match_here (drop 0 (c # cs)) = None" by (rule spec)
      with Some show False by simp
    qed
    with Some show ?thesis by simp
  qed
qed

lemma findall_first:
  "findall s = m # ms \<Longrightarrow>
   \<exists>k. match_here (drop k s) = Some m \<and> k \<le> length s \<and> (\<forall>j < k. match_here (drop j s) = None)"
proof (induction s)
  case Nil
  then show ?case by simp
next
  case (Cons c cs)
  show ?case
  proof (cases "match_here (c # cs)")
    case None
    with Cons.prems have "findall cs = m # ms" by simp
    from Cons.IH [OF this] obtain k where k: "match_here (drop k cs) = Some m" "k \<le> length cs"
      "\<forall>j < k. match_here (drop j cs) = None"
      by blast
    have "\<forall>j < Suc k. match_here (drop j (c # cs)) = None"
    proof (intro allI impI)
      fix j assume "j < Suc k"
      with k(3) None show "match_here (drop j (c # cs)) = None"
        by (cases j) simp_all
    qed
    with k(1,2) have "match_here (drop (Suc k) (c # cs)) = Some m \<and> Suc k \<le> length (c # cs)
        \<and> (\<forall>j < Suc k. match_here (drop j (c # cs)) = None)"
      by simp
    then show ?thesis by blast
  next
    case (Some m')
    with Cons.prems have "m' = m" by simp
    with Some have "match_here (drop 0 (c # cs)) = Some m \<and> 0 \<le> length (c # cs)
        \<and> (\<forall>j < 0. match_here (drop j (c # cs)) = None)"
      by simp
    then show ?thesis by blast
  qed
qed

lemma occurrence_matches:
  assumes "s = pre @ fdi_prefix @ c # post" and "\<not> is_space c"
  shows "match_here (drop (length pre) s) \<noteq> None"
proof -
  from assms(1) have "drop (length pre) s = fdi_prefix @ c # post" by simp
  with assms(2) show ?thesis
    unfolding match_here_None by blast
qed


text \<open>
  C8. The file name taken from the output of the remaster command is the leftmost
  occurrence of \<^verbatim>\<open>foreman-discovery-image\<close> followed by at least one non-whitespace
  character, extended over the whole run of non-whitespace characters after it. When
  the output has no such occurrence the extraction fails, with Python's
  \<^verbatim>\<open>IndexError\<close>, and so does the fixture, before any broker call.
\<close>

theorem remastered_image_is_first_match:
  "((\<forall>pre c post. out = pre @ fdi_prefix @ c # post \<longrightarrow> is_space c)
      \<longrightarrow> first_fdi out = Inl IndexError)
   \<and> ((\<exists>pre c post. out = pre @ fdi_prefix @ c # post \<and> \<not> is_space c) \<longrightarrow>
        (\<exists>pre0 run post0.
           out = pre0 @ fdi_prefix @ run @ post0
           \<and> run \<noteq> [] \<and> (\<forall>x \<in> set run. \<not> is_space x)
           \<and> (post0 = [] \<or> is_space (hd post0))
           \<and> (\<forall>pre c post. out = pre @ fdi_prefix @ c # post \<and> \<not> is_space c
                 \<longrightarrow> length pre0 \<le> length pre)
           \<and> first_fdi out = Inr (fdi_prefix @ run)))
   \<and> (broker_args ''provisioning_nic_mac_addr'' = Some mac
        \<and> execute (remaster_command ds mac) = out \<longrightarrow>
        (\<forall>e. first_fdi out = Inl e \<longrightarrow>
           pxeless_discovery_host name broker_args ds fw gen vlan execute = ([], Some e))
        \<and> (\<forall>fdi fw'. first_fdi out = Inr fdi \<and> broker_args ''target_vm_firmware'' = Some fw'
             \<longrightarrow> (\<exists>calls. pxeless_discovery_host name broker_args ds fw gen vlan execute = (calls, None)
                    \<and> map_of (call_args (hd calls)) ''import_disk_image_url''
                        = Some (''https://'' @ sat_hostname ds @ ''/pub/'' @ fdi))))"
proof (intro conjI impI)
  assume none: "\<forall>pre c post. out = pre @ fdi_prefix @ c # post \<longrightarrow> is_space c"
  have "\<forall>k. match_here (drop k out) = None"
  proof
    fix k
    show "match_here (drop k out) = None"
      unfolding match_here_None
    proof (intro allI impI)
      fix c post assume "drop k out = fdi_prefix @ c # post"
      then have "out = take k out @ fdi_prefix @ c # post"
        by (metis append_take_drop_id)
      with none show "is_space c" by blast
    qed
  qed
  then have "findall out = []" by (rule iffD2 [OF findall_Nil])
  then show "first_fdi out = Inl IndexError" by (simp add: first_fdi_def)
next
  assume "\<exists>pre c post. out = pre @ fdi_prefix @ c # post \<and> \<not> is_space c"
  then obtain pre c post where occ: "out = pre @ fdi_prefix @ c # post" "\<not> is_space c"
    by blast
  have "findall out \<noteq> []"
  proof
    assume "findall out = []"
    then have "\<forall>k. match_here (drop k out) = None" by (rule iffD1 [OF findall_Nil])
    with occurrence_matches [OF occ] show False by simp
  qed
  then obtain m ms where fa: "findall out = m # ms" by (cases "findall out") auto
  from findall_first [OF fa] obtain k where k: "match_here (drop k out) = Some m"
    "k \<le> length out" "\<forall>j < k. match_here (drop j out) = None"
    by blast
  from k(1) obtain run post0 where d: "drop k out = fdi_prefix @ run @ post0"
    and run: "run \<noteq> []" "\<forall>x \<in> set run. \<not> is_space x" "post0 = [] \<or> is_space (hd post0)"
    and m: "m = fdi_prefix @ run"
    unfolding match_here_Some by blast
  have out: "out = take k out @ fdi_prefix @ run @ post0"
    using d by (metis append_take_drop_id)
  have len: "length (take k out) = k" using k(2) by simp
  have left: "\<forall>pre c post. out = pre @ fdi_prefix @ c # post \<and> \<not> is_space c
      \<longrightarrow> length (take k out) \<le> length pre"
  proof (intro allI impI)
    fix pre' c' post' assume o: "out = pre' @ fdi_prefix @ c' # post' \<and> \<not> is_space c'"
    then have "match_here (drop (length pre') out) \<noteq> None"
      using occurrence_matches by blast
    with k(3) have "\<not> length pre' < k" by auto
    with len show "length (take k out) \<le> length pre'" by simp
  qed
  from fa m have res: "first_fdi out = Inr (fdi_prefix @ run)"
    by (simp add: first_fdi_def)
  from out run left res
  show "\<exists>pre0 run post0.
           out = pre0 @ fdi_prefix @ run @ post0
           \<and> run \<noteq> [] \<and> (\<forall>x \<in> set run. \<not> is_space x)
           \<and> (post0 = [] \<or> is_space (hd post0))
           \<and> (\<forall>pre c post. out = pre @ fdi_prefix @ c # post \<and> \<not> is_space c
                 \<longrightarrow> length pre0 \<le> length pre)
           \<and> first_fdi out = Inr (fdi_prefix @ run)"
    by blast
next
  assume a: "broker_args ''provisioning_nic_mac_addr'' = Some mac
        \<and> execute (remaster_command ds mac) = out"
  then show "\<forall>e. first_fdi out = Inl e \<longrightarrow>
           pxeless_discovery_host name broker_args ds fw gen vlan execute = ([], Some e)"
    by (simp add: pxeless_discovery_host_def)
  from a show "\<forall>fdi fw'. first_fdi out = Inr fdi \<and> broker_args ''target_vm_firmware'' = Some fw'
             \<longrightarrow> (\<exists>calls. pxeless_discovery_host name broker_args ds fw gen vlan execute = (calls, None)
                    \<and> map_of (call_args (hd calls)) ''import_disk_image_url''
                        = Some (''https://'' @ sat_hostname ds @ ''/pub/'' @ fdi))"
    by (simp add: pxeless_discovery_host_def Let_def)
qed

lemma findall_remaster_stdout:
  "findall remaster_stdout = [''foreman-discovery-image-3.8.iso'']"
  by (simp add: remaster_stdout_def match_here_def fdi_prefix_def is_space_def Let_def)

lemma findall_remaster_stdout_without_image:
  "findall remaster_stdout_without_image = []"
  by (simp add: remaster_stdout_without_image_def match_here_def fdi_prefix_def is_space_def Let_def)

theorem remastered_image_is_first_match_witness:
  "first_fdi remaster_stdout_without_image = Inl IndexError
   \<and> pxeless_discovery_host ''vm1'' example_broker_args example_discovery_sat ''bios'' ''abc''
        ''400'' (\<lambda>cmd. remaster_stdout_without_image) = ([], Some IndexError)
   \<and> (\<exists>run. run \<noteq> [] \<and> first_fdi remaster_stdout = Inr (fdi_prefix @ run))
   \<and> (\<exists>calls. pxeless_discovery_host ''vm1'' example_broker_args example_discovery_sat ''bios''
          ''abc'' ''400'' (\<lambda>cmd. remaster_stdout) = (calls, None)
        \<and> map_of (call_args (hd calls)) ''import_disk_image_url''
            = Some ''https://sat.example.com/pub/foreman-discovery-image-3.8.iso'')"
proof -
  let ?mac = "''52:54:00:aa:bb:cc''"
  have mac: "example_broker_args ''provisioning_nic_mac_addr'' = Some ?mac"
    and fw: "example_broker_args ''target_vm_firmware'' = Some ''bios''"
    by (simp_all add: example_broker_args_def)
  have none: "\<forall>pre c post. remaster_stdout_without_image = pre @ fdi_prefix @ c # post
      \<longrightarrow> is_space c"
  proof (intro allI impI)
    fix pre c post
    assume o: "remaster_stdout_without_image = pre @ fdi_prefix @ c # post"
    have "\<forall>k. match_here (drop k remaster_stdout_without_image) = None"
      by (rule iffD1 [OF findall_Nil]) (rule findall_remaster_stdout_without_image)
    with occurrence_matches [OF o] show "is_space c" by auto
  qed
  have some: "\<exists>pre c post. remaster_stdout = pre @ fdi_prefix @ c # post \<and> \<not> is_space c"
  proof (intro exI conjI)
    show "remaster_stdout = ''ok '' @ fdi_prefix @ CHR ''-'' # ''3.8.iso done''"
      by (simp add: remaster_stdout_def fdi_prefix_def)
    show "\<not> is_space CHR ''-''" by (simp add: is_space_def)
  qed
  note claim1 = remastered_image_is_first_match
    [of remaster_stdout_without_image example_broker_args ?mac
        "\<lambda>cmd. remaster_stdout_without_image" example_discovery_sat "''vm1''" "''bios''"
        "''abc''" "''400''"]
  note claim2 = remastered_image_is_first_match
    [of remaster_stdout example_broker_args ?mac
        "\<lambda>cmd. remaster_stdout" example_discovery_sat "''vm1''" "''bios''"
        "''abc''" "''400''"]
  from claim1 none have a: "first_fdi remaster_stdout_without_image = Inl IndexError"
    by blast
  from claim1 mac a
  have b: "pxeless_discovery_host ''vm1'' example_broker_args example_discovery_sat ''bios'' ''abc''
        ''400'' (\<lambda>cmd. remaster_stdout_without_image) = ([], Some IndexError)"
    by blast
  from claim2 some obtain run where run: "run \<noteq> []"
    "first_fdi remaster_stdout = Inr (fdi_prefix @ run)"
    by blast
  have v: "first_fdi remaster_stdout = Inr ''foreman-discovery-image-3.8.iso''"
    by (simp add: first_fdi_def findall_remaster_stdout)
  from claim2 mac fw v obtain calls where
    "pxeless_discovery_host ''vm1'' example_broker_args example_discovery_sat ''bios''
          ''abc'' ''400'' (\<lambda>cmd. remaster_stdout) = (calls, None)"
    "map_of (call_args (hd calls)) ''import_disk_image_url''
       = Some (''https://'' @ sat_hostname example_discovery_sat @ ''/pub/''
               @ ''foreman-discovery-image-3.8.iso'')"
    by blast
  then have c: "\<exists>calls. pxeless_discovery_host ''vm1'' example_broker_args example_discovery_sat
          ''bios'' ''abc'' ''400'' (\<lambda>cmd. remaster_stdout) = (calls, None)
        \<and> map_of (call_args (hd calls)) ''import_disk_image_url''
            = Some ''https://sat.example.com/pub/foreman-discovery-image-3.8.iso''"
    by (simp add: example_discovery_sat_def)
  from a b run c show ?thesis by blast
qed

end
